theory Spec2Isabelle
  imports Complex_Main "HOL-Library.Sublist" "HOL-Library.Multiset"
begin

section \<open>JavaScript numbers\<close>

text \<open>
  A JavaScript number is an IEEE 754 double. The model keeps the three special values
  the code can meet (\<open>NaN\<close>, \<open>Infinity\<close>, \<open>-Infinity\<close>) and carries every finite value as
  an exact real: the rounding error of double arithmetic and the sign of zero are not
  modelled. Where rounding can turn a finite result into \<open>NaN\<close>, in the planner's distance
  function, the machine's result is a parameter. Comparisons with \<open>NaN\<close> are false, as in
  the language.
\<close>

datatype jsnum = Fin real | PInf | NInf | NaN

fun js_lt :: "jsnum \<Rightarrow> jsnum \<Rightarrow> bool" where
  "js_lt (Fin a) (Fin b) = (a < b)"
| "js_lt (Fin a) PInf = True"
| "js_lt NInf (Fin b) = True"
| "js_lt NInf PInf = True"
| "js_lt _ _ = False"

definition js_gt :: "jsnum \<Rightarrow> jsnum \<Rightarrow> bool" where
  "js_gt a b = js_lt b a"

definition js_le :: "jsnum \<Rightarrow> jsnum \<Rightarrow> bool" where
  "js_le a b = (js_lt a b \<or> (a = b \<and> a \<noteq> NaN))"

definition js_ge :: "jsnum \<Rightarrow> jsnum \<Rightarrow> bool" where
  "js_ge a b = js_le b a"

fun js_neg :: "jsnum \<Rightarrow> jsnum" where
  "js_neg (Fin a) = Fin (- a)"
| "js_neg PInf = NInf"
| "js_neg NInf = PInf"
| "js_neg NaN = NaN"

fun js_add :: "jsnum \<Rightarrow> jsnum \<Rightarrow> jsnum" where
  "js_add (Fin a) (Fin b) = Fin (a + b)"
| "js_add NaN _ = NaN"
| "js_add _ NaN = NaN"
| "js_add PInf NInf = NaN"
| "js_add NInf PInf = NaN"
| "js_add PInf _ = PInf"
| "js_add _ PInf = PInf"
| "js_add NInf _ = NInf"
| "js_add _ NInf = NInf"

definition js_sub :: "jsnum \<Rightarrow> jsnum \<Rightarrow> jsnum" where
  "js_sub a b = js_add a (js_neg b)"

text \<open>An infinity times a finite factor: the sign of the factor decides, zero gives NaN.\<close>

definition inf_times :: "bool \<Rightarrow> real \<Rightarrow> jsnum" where
  "inf_times positive a =
     (if a = 0 then NaN else if (0 < a) = positive then PInf else NInf)"

fun js_mul :: "jsnum \<Rightarrow> jsnum \<Rightarrow> jsnum" where
  "js_mul (Fin a) (Fin b) = Fin (a * b)"
| "js_mul NaN _ = NaN"
| "js_mul _ NaN = NaN"
| "js_mul PInf (Fin b) = inf_times True b"
| "js_mul NInf (Fin b) = inf_times False b"
| "js_mul (Fin a) PInf = inf_times True a"
| "js_mul (Fin a) NInf = inf_times False a"
| "js_mul PInf PInf = PInf"
| "js_mul NInf NInf = PInf"
| "js_mul PInf NInf = NInf"
| "js_mul NInf PInf = NInf"

text \<open>
  Division: \<open>0/0\<close> is \<open>NaN\<close>, a non-zero finite value over zero is an infinity of its
  sign, a finite value over an infinity is zero, an infinity over an infinity is \<open>NaN\<close>.
\<close>

fun js_div :: "jsnum \<Rightarrow> jsnum \<Rightarrow> jsnum" where
  "js_div (Fin a) (Fin b) =
     (if b = 0 then (if a = 0 then NaN else if 0 < a then PInf else NInf)
      else Fin (a / b))"
| "js_div NaN _ = NaN"
| "js_div _ NaN = NaN"
| "js_div (Fin a) PInf = Fin 0"
| "js_div (Fin a) NInf = Fin 0"
| "js_div PInf (Fin b) = (if 0 \<le> b then PInf else NInf)"
| "js_div NInf (Fin b) = (if 0 \<le> b then NInf else PInf)"
| "js_div _ _ = NaN"

fun math_ceil :: "jsnum \<Rightarrow> jsnum" where
  "math_ceil (Fin a) = Fin (of_int \<lceil>a\<rceil>)"
| "math_ceil x = x"

text \<open>
  \<open>x.toFixed(d)\<close> renders the decimal with \<open>d\<close> digits nearest to \<open>x\<close>, the larger one
  on a tie, after taking the sign off; \<open>parseFloat\<close> reads it back. \<open>toFixed_scaled d a\<close> is
  the integer \<open>n\<close> of that rendering for a non-negative \<open>a\<close>.
\<close>

definition toFixed_scaled :: "nat \<Rightarrow> real \<Rightarrow> int" where
  "toFixed_scaled d a = \<lfloor>a * 10 ^ d + 1 / 2\<rfloor>"

definition round_fixed :: "nat \<Rightarrow> real \<Rightarrow> real" where
  "round_fixed d a =
     (if a < 0 then - (of_int (toFixed_scaled d (- a)) / 10 ^ d)
      else of_int (toFixed_scaled d a) / 10 ^ d)"

fun parseFloat_toFixed :: "nat \<Rightarrow> jsnum \<Rightarrow> jsnum" where
  "parseFloat_toFixed d (Fin a) = Fin (round_fixed d a)"
| "parseFloat_toFixed d x = x"

text \<open>
  \<open>v || d\<close> on a property that holds a number or is missing (\<open>undefined\<close>): the falsy
  numbers are \<open>0\<close> and \<open>NaN\<close>. On a string property the falsy string is the empty one.
\<close>

definition num_or :: "jsnum option \<Rightarrow> jsnum \<Rightarrow> jsnum" where
  "num_or v d = (case v of None \<Rightarrow> d | Some x \<Rightarrow> if x = Fin 0 \<or> x = NaN then d else x)"

definition str_or :: "string option \<Rightarrow> string \<Rightarrow> string" where
  "str_or v d = (case v of None \<Rightarrow> d | Some s \<Rightarrow> if s = [] then d else s)"

text \<open>An object whose properties are numbers, read by property name.\<close>

type_synonym jsobj = "string \<rightharpoonup> jsnum"

section \<open>Field grid (gpsSimulator.js, fieldGrid.js)\<close>

text \<open>
  A coordinate is a JavaScript number, so a point can carry \<open>NaN\<close> or an infinity.
  \<open>createFieldGrid\<close> builds every cell from finite arithmetic on the field centre.
\<close>

record gps =
  lat :: jsnum
  lng :: jsnum

definition FIELD_CONFIG_center_lat :: real where
  "FIELD_CONFIG_center_lat = 286139 / 10000"

definition FIELD_CONFIG_center_lng :: real where
  "FIELD_CONFIG_center_lng = 772090 / 10000"

definition getFieldCenter :: gps where
  "getFieldCenter = \<lparr>lat = Fin FIELD_CONFIG_center_lat, lng = Fin FIELD_CONFIG_center_lng\<rparr>"

record cell =
  row :: nat
  col :: nat
  id_cell :: string
  center :: gps
  bounds :: "(jsnum \<times> jsnum) \<times> (jsnum \<times> jsnum)"
  detections :: "string list"
  infected :: bool

type_synonym grid = "cell list list"

definition GRID_CONFIG_rows :: nat where
  "GRID_CONFIG_rows = 10"

definition GRID_CONFIG_cols :: nat where
  "GRID_CONFIG_cols = 10"

definition GRID_CONFIG_latDelta :: real where
  "GRID_CONFIG_latDelta = 2 / 1000"

definition GRID_CONFIG_lngDelta :: real where
  "GRID_CONFIG_lngDelta = 2 / 1000"

function string_of_nat :: "nat \<Rightarrow> string" where
  "string_of_nat n =
     (if n < 10 then [char_of (48 + n)]
      else string_of_nat (n div 10) @ [char_of (48 + n mod 10)])"
  by pat_completeness auto
termination
  by (relation "measure (\<lambda>n. n)") auto

text \<open>The body of the two loops of \<open>createFieldGrid\<close>: the cell at \<open>(r, c)\<close>.\<close>

definition createCell :: "nat \<Rightarrow> nat \<Rightarrow> cell" where
  "createCell r c =
     (let cellLatSize = GRID_CONFIG_latDelta / real GRID_CONFIG_rows;
          cellLngSize = GRID_CONFIG_lngDelta / real GRID_CONFIG_cols;
          fieldNorth = FIELD_CONFIG_center_lat + GRID_CONFIG_latDelta / 2;
          fieldWest = FIELD_CONFIG_center_lng - GRID_CONFIG_lngDelta / 2;
          north = fieldNorth - real r * cellLatSize;
          south = north - cellLatSize;
          west = fieldWest + real c * cellLngSize;
          east = west + cellLngSize;
          centerLat = (north + south) / 2;
          centerLng = (west + east) / 2
      in \<lparr>row = r, col = c,
          id_cell = string_of_nat r @ ''_'' @ string_of_nat c,
          center = \<lparr>lat = Fin (round_fixed 6 centerLat), lng = Fin (round_fixed 6 centerLng)\<rparr>,
          bounds = ((Fin south, Fin west), (Fin north, Fin east)),
          detections = [],
          infected = False\<rparr>)"

definition createFieldGrid :: grid where
  "createFieldGrid =
     map (\<lambda>r. map (\<lambda>c. createCell r c) [0..<GRID_CONFIG_cols]) [0..<GRID_CONFIG_rows]"

definition flattenGrid :: "grid \<Rightarrow> cell list" where
  "flattenGrid g = concat g"

definition getInfectedCells :: "grid \<Rightarrow> cell list" where
  "getInfectedCells g = filter infected (flattenGrid g)"

definition calculateGridStats :: "grid \<Rightarrow> jsobj" where
  "calculateGridStats g =
     (let allCells = flattenGrid g;
          infectedCells = filter infected allCells;
          totalCells = Fin (real (length allCells));
          infectedCount = Fin (real (length infectedCells));
          healthyCount = js_sub totalCells infectedCount;
          infectedPercentage = js_mul (js_div infectedCount totalCells) (Fin 100);
          healthyPercentage = js_mul (js_div healthyCount totalCells) (Fin 100)
      in [''totalCells'' \<mapsto> totalCells,
          ''infectedCount'' \<mapsto> infectedCount,
          ''healthyCount'' \<mapsto> healthyCount,
          ''infectedPercentage'' \<mapsto> parseFloat_toFixed 1 infectedPercentage,
          ''healthyPercentage'' \<mapsto> parseFloat_toFixed 1 healthyPercentage,
          ''chemicalSavings'' \<mapsto> parseFloat_toFixed 1 healthyPercentage])"

section \<open>Signal extraction (alertRuleEngine.js)\<close>

record signals =
  infectionPercentage :: jsnum
  roiRatio :: jsnum
  potentialLoss :: jsnum
  soilMoisture :: jsnum
  soilTemperature :: jsnum
  airHumidity :: jsnum
  fusionSeverity :: string
  fusionDiagnosis :: string
  fusionConfidence :: jsnum
  infectionGrowthRate :: jsnum
  timestamp :: string
  infectedCount :: "jsnum option"
  totalCells :: "jsnum option"

text \<open>
  The inputs of \<open>extractSignals\<close>. \<open>None\<close> stands for \<open>null\<close> or \<open>undefined\<close>, for a whole
  argument as for a property. The grid statistics, the sensor reading and
  \<open>roi.perApplication\<close> are objects of numbers read by property name.
\<close>

record roi_obj =
  perApplication :: "jsobj option"

record economic_impact =
  roi :: "roi_obj option"
  potentialLoss_ei :: "jsnum option"

record diagnosis_obj =
  severity :: "string option"
  refined_diagnosis :: "string option"
  confidence :: "jsnum option"

record fusion_result =
  diagnosis :: "diagnosis_obj option"

definition signals_default :: "string \<Rightarrow> signals" where
  "signals_default now =
     \<lparr>infectionPercentage = Fin 0, roiRatio = Fin 0, potentialLoss = Fin 0,
      soilMoisture = Fin 50, soilTemperature = Fin 25, airHumidity = Fin 60,
      fusionSeverity = ''none'', fusionDiagnosis = ''Unknown'', fusionConfidence = Fin 0,
      infectionGrowthRate = Fin 0, timestamp = now,
      infectedCount = None, totalCells = None\<rparr>"

definition from_gridStats :: "jsobj option \<Rightarrow> signals \<Rightarrow> signals" where
  "from_gridStats gridStats s =
     (case gridStats of
        None \<Rightarrow> s
      | Some gs \<Rightarrow>
          s\<lparr>infectionPercentage := num_or (gs ''infectionPercentage'') (Fin 0),
            infectedCount := Some (num_or (gs ''infectedCount'') (Fin 0)),
            totalCells := Some (num_or (gs ''totalCells'') (Fin 100))\<rparr>)"

definition from_economicImpact :: "economic_impact option \<Rightarrow> signals \<Rightarrow> signals" where
  "from_economicImpact economicImpact s =
     (case economicImpact of
        None \<Rightarrow> s
      | Some ei \<Rightarrow>
          (case roi ei of
             None \<Rightarrow> s
           | Some r \<Rightarrow>
               s\<lparr>roiRatio :=
                    num_or (case perApplication r of None \<Rightarrow> None | Some pa \<Rightarrow> pa ''roiRatio'')
                      (Fin 0),
                 potentialLoss := num_or (potentialLoss_ei ei) (Fin 0)\<rparr>))"

definition from_fusionResults :: "fusion_result list option \<Rightarrow> signals \<Rightarrow> signals" where
  "from_fusionResults fusionResults s =
     (case fusionResults of
        None \<Rightarrow> s
      | Some fs \<Rightarrow>
          if length fs > 0 then
            (case diagnosis (fs ! (length fs - 1)) of
               None \<Rightarrow> s
             | Some dg \<Rightarrow>
                 s\<lparr>fusionSeverity := str_or (severity dg) ''none'',
                   fusionDiagnosis := str_or (refined_diagnosis dg) ''Unknown'',
                   fusionConfidence := num_or (confidence dg) (Fin 0)\<rparr>)
          else s)"

definition from_sensorData :: "jsobj option \<Rightarrow> signals \<Rightarrow> signals" where
  "from_sensorData sensorData s =
     (case sensorData of
        None \<Rightarrow> s
      | Some sd \<Rightarrow>
          s\<lparr>soilMoisture := num_or (sd ''soil_moisture'') (Fin 50),
            soilTemperature := num_or (sd ''soil_temperature'') (Fin 25),
            airHumidity := num_or (sd ''air_humidity'') (Fin 60)\<rparr>)"

definition growth_rate :: "signals \<Rightarrow> signals" where
  "growth_rate s =
     (if js_gt (infectionPercentage s) (Fin 15)
      then s\<lparr>infectionGrowthRate := js_mul (infectionPercentage s) (Fin (15 / 100))\<rparr>
      else if js_gt (infectionPercentage s) (Fin 5)
      then s\<lparr>infectionGrowthRate := js_mul (infectionPercentage s) (Fin (1 / 10))\<rparr>
      else s)"

text \<open>
  \<open>extractSignals\<close> never reads its first argument, the detections. The clock reading
  \<open>new Date().toISOString()\<close> is the parameter \<open>now\<close>.
\<close>

definition extractSignals ::
  "string \<Rightarrow> 'd \<Rightarrow> jsobj option \<Rightarrow> economic_impact option \<Rightarrow> fusion_result list option
     \<Rightarrow> jsobj option \<Rightarrow> signals" where
  "extractSignals now detects gridStats economicImpact fusionResults sensorData =
     growth_rate
       (from_sensorData sensorData
         (from_fusionResults fusionResults
           (from_economicImpact economicImpact
             (from_gridStats gridStats (signals_default now)))))"

section \<open>Decision rules (decisionRules.js)\<close>

text \<open>
  Strings are byte lists; a title's leading emoji is written as its UTF-8 bytes. The code
  only searches strings for ASCII words, which reads the same on bytes as on UTF-16 units.
  \<open>toLowerCase\<close> is modelled on ASCII letters.
\<close>

definition str_includes :: "string \<Rightarrow> string \<Rightarrow> bool" where
  "str_includes s needle = sublist needle s"

definition lower_char :: "char \<Rightarrow> char" where
  "lower_char c =
     (let n = (of_char c :: nat) in if 65 \<le> n \<and> n \<le> 90 then char_of (n + 32) else c)"

definition toLowerCase :: "string \<Rightarrow> string" where
  "toLowerCase s = map lower_char s"

text \<open>\<open>d && d.toLowerCase().includes(w)\<close>: the empty string is falsy.\<close>

definition mentions :: "string \<Rightarrow> string \<Rightarrow> bool" where
  "mentions d w = (d \<noteq> [] \<and> str_includes (toLowerCase d) w)"

text \<open>
  A rule keeps its id, name, priority, condition and the type and title of its alert.
  The message, action, timeline, icon and metadata of the alert template are texts
  rendered for display; they are left out of the model.
\<close>

record rule =
  id_rule :: string
  name_rule :: string
  priority_rule :: int
  condition :: "signals \<Rightarrow> bool"
  type_rule :: string
  title_rule :: string

definition RULE_001 :: rule where
  "RULE_001 =
     \<lparr>id_rule = ''RULE_001'', name_rule = ''Critical Infection Outbreak'', priority_rule = 1,
      condition = (\<lambda>s. js_gt (infectionPercentage s) (Fin 25) \<and>
                        (fusionSeverity s = ''high'' \<or> fusionSeverity s = ''medium'')),
      type_rule = ''CRITICAL'',
      title_rule = [CHR 0xF0, CHR 0x9F, CHR 0x9A, CHR 0xA8] @ '' Disease Outbreak Detected''\<rparr>"

definition RULE_003 :: rule where
  "RULE_003 =
     \<lparr>id_rule = ''RULE_003'', name_rule = ''Critical Drought Stress'', priority_rule = 1,
      condition = (\<lambda>s. js_lt (soilMoisture s) (Fin 20) \<or>
                        mentions (fusionDiagnosis s) ''drought''),
      type_rule = ''CRITICAL'',
      title_rule = [CHR 0xF0, CHR 0x9F, CHR 0x92, CHR 0xA7] @ '' Severe Drought Detected''\<rparr>"

definition RULE_007 :: rule where
  "RULE_007 =
     \<lparr>id_rule = ''RULE_007'', name_rule = ''High Economic Risk'', priority_rule = 1,
      condition = (\<lambda>s. js_gt (potentialLoss s) (Fin 100000) \<and>
                        js_gt (infectionPercentage s) (Fin 15)),
      type_rule = ''CRITICAL'',
      title_rule = [CHR 0xF0, CHR 0x9F, CHR 0x92, CHR 0xB8] @ '' High Economic Risk''\<rparr>"

definition RULE_008 :: rule where
  "RULE_008 =
     \<lparr>id_rule = ''RULE_008'', name_rule = ''Rapid Infection Growth'', priority_rule = 1,
      condition = (\<lambda>s. js_gt (infectionGrowthRate s) (Fin 2)),
      type_rule = ''CRITICAL'',
      title_rule = [CHR 0xF0, CHR 0x9F, CHR 0x93, CHR 0x88] @ '' Rapid Disease Spread''\<rparr>"

definition RULE_002 :: rule where
  "RULE_002 =
     \<lparr>id_rule = ''RULE_002'', name_rule = ''Moderate Infection Warning'', priority_rule = 2,
      condition = (\<lambda>s. js_ge (infectionPercentage s) (Fin 10) \<and>
                        js_le (infectionPercentage s) (Fin 25) \<and>
                        fusionSeverity s \<noteq> ''none''),
      type_rule = ''WARNING'',
      title_rule = [CHR 0xE2, CHR 0x9A, CHR 0xA0, CHR 0xEF, CHR 0xB8, CHR 0x8F]
                     @ '' Infection Spreading''\<rparr>"

definition RULE_004 :: rule where
  "RULE_004 =
     \<lparr>id_rule = ''RULE_004'', name_rule = ''Heat Stress Alert'', priority_rule = 2,
      condition = (\<lambda>s. js_gt (soilTemperature s) (Fin 35) \<or>
                        mentions (fusionDiagnosis s) ''heat''),
      type_rule = ''WARNING'',
      title_rule = [CHR 0xF0, CHR 0x9F, CHR 0x8C, CHR 0xA1, CHR 0xEF, CHR 0xB8, CHR 0x8F]
                     @ '' Heat Stress Risk''\<rparr>"

definition RULE_005 :: rule where
  "RULE_005 =
     \<lparr>id_rule = ''RULE_005'', name_rule = ''Fungal Outbreak Risk'', priority_rule = 2,
      condition = (\<lambda>s. (js_gt (airHumidity s) (Fin 85) \<and> js_gt (soilMoisture s) (Fin 70)) \<or>
                        mentions (fusionDiagnosis s) ''fungal''),
      type_rule = ''WARNING'',
      title_rule = [CHR 0xF0, CHR 0x9F, CHR 0x92, CHR 0xA8] @ '' High Fungal Risk''\<rparr>"

definition RULE_006 :: rule where
  "RULE_006 =
     \<lparr>id_rule = ''RULE_006'', name_rule = ''Low ROI Warning'', priority_rule = 2,
      condition = (\<lambda>s. js_gt (roiRatio s) (Fin 0) \<and> js_lt (roiRatio s) (Fin 2) \<and>
                        js_lt (infectionPercentage s) (Fin 15)),
      type_rule = ''WARNING'',
      title_rule = [CHR 0xF0, CHR 0x9F, CHR 0x92, CHR 0xB0]
                     @ '' Low ROI - Verify Before Action''\<rparr>"

definition RULE_010 :: rule where
  "RULE_010 =
     \<lparr>id_rule = ''RULE_010'', name_rule = ''Early Detection - Preventive Action'',
      priority_rule = 4,
      condition = (\<lambda>s. js_ge (infectionPercentage s) (Fin 3) \<and>
                        js_lt (infectionPercentage s) (Fin 10) \<and>
                        js_gt (fusionConfidence s) (Fin (7 / 10))),
      type_rule = ''INFO'',
      title_rule = [CHR 0xF0, CHR 0x9F, CHR 0x9B, CHR 0xA1, CHR 0xEF, CHR 0xB8, CHR 0x8F]
                     @ '' Early Detection - Preventive Opportunity''\<rparr>"

definition RULE_009 :: rule where
  "RULE_009 =
     \<lparr>id_rule = ''RULE_009'', name_rule = ''System Healthy'', priority_rule = 5,
      condition = (\<lambda>s. js_lt (infectionPercentage s) (Fin 5) \<and>
                        js_ge (soilMoisture s) (Fin 40) \<and> js_le (soilMoisture s) (Fin 70) \<and>
                        js_ge (soilTemperature s) (Fin 20) \<and> js_le (soilTemperature s) (Fin 32) \<and>
                        mentions (fusionDiagnosis s) ''healthy''),
      type_rule = ''INFO'',
      title_rule = [CHR 0xE2, CHR 0x9C, CHR 0x85] @ '' Field Health Excellent''\<rparr>"

definition DECISION_RULES :: "rule list" where
  "DECISION_RULES =
     [RULE_001, RULE_003, RULE_007, RULE_008, RULE_002, RULE_004, RULE_005, RULE_006,
      RULE_010, RULE_009]"

section \<open>Rule engine (alertRuleEngine.js)\<close>

text \<open>
  An alert keeps the fields the engine, the resolver and the debouncer read. On a snapshot
  whose fields are numbers and strings no condition and no message function can throw
  (\<open>toFixed\<close> is defined on every number), so the \<open>try\<close>/\<open>catch\<close> around a rule has
  no branch here.
\<close>

record alert =
  ruleId :: string
  ruleName :: string
  priority :: int
  type_alert :: string
  title :: string
  signals_alert :: signals

definition mk_alert :: "signals \<Rightarrow> rule \<Rightarrow> alert" where
  "mk_alert s r =
     \<lparr>ruleId = id_rule r, ruleName = name_rule r, priority = priority_rule r,
      type_alert = type_rule r, title = title_rule r, signals_alert = s\<rparr>"

text \<open>\<open>Array.prototype.sort\<close> is stable, as \<open>sort_key\<close> is.\<close>

definition evaluateAlerts :: "signals \<Rightarrow> alert list" where
  "evaluateAlerts s =
     sort_key priority (map (mk_alert s) (filter (\<lambda>r. condition r s) DECISION_RULES))"

datatype category = Disease | Environmental | Economic | System

definition category_of :: "alert \<Rightarrow> category" where
  "category_of a =
     (if str_includes (title a) ''Disease'' \<or> str_includes (title a) ''Infection'' then Disease
      else if str_includes (title a) ''Drought'' \<or> str_includes (title a) ''Heat''
              \<or> str_includes (title a) ''Humidity'' then Environmental
      else if str_includes (title a) ''ROI'' \<or> str_includes (title a) ''Economic'' then Economic
      else System)"

text \<open>The four groups are visited in the order the object literal declares them.\<close>

definition first_of :: "alert list \<Rightarrow> alert list" where
  "first_of categoryAlerts = (if length categoryAlerts > 0 then [categoryAlerts ! 0] else [])"

definition resolveConflicts :: "alert list \<Rightarrow> alert list" where
  "resolveConflicts alerts =
     (if length alerts \<le> 1 then alerts
      else concat (map (\<lambda>c. first_of (filter (\<lambda>a. category_of a = c) alerts))
                    [Disease, Environmental, Economic, System]))"

text \<open>
  The debouncer: a map from the key \<open>ruleId_type\<close> to the time of the last emission.
  \<open>Date.now()\<close> is the parameter \<open>now\<close>, in milliseconds. \<open>!lastShown\<close> holds for a
  missing entry and for a stored time 0.
\<close>

record alert_debouncer =
  recentAlerts :: "string \<rightharpoonup> int"
  windowMs :: int

definition AlertDebouncer :: "int \<Rightarrow> alert_debouncer" where
  "AlertDebouncer w = \<lparr>recentAlerts = Map.empty, windowMs = w\<rparr>"

definition alertDebouncer :: alert_debouncer where
  "alertDebouncer = AlertDebouncer 30000"

definition alert_key :: "alert \<Rightarrow> string" where
  "alert_key a = ruleId a @ ''_'' @ type_alert a"

definition shouldShowAlert :: "alert_debouncer \<Rightarrow> alert \<Rightarrow> int \<Rightarrow> bool \<times> alert_debouncer" where
  "shouldShowAlert d a now =
     (let key = alert_key a; lastShown = recentAlerts d key
      in if (case lastShown of None \<Rightarrow> True | Some t \<Rightarrow> t = 0 \<or> now - t > windowMs d)
         then (True, d\<lparr>recentAlerts := (recentAlerts d)(key \<mapsto> now)\<rparr>)
         else (False, d))"

definition clear :: "alert_debouncer \<Rightarrow> alert_debouncer" where
  "clear d = d\<lparr>recentAlerts := Map.empty\<rparr>"

section \<open>Zone statistics (infectedZones.js)\<close>

text \<open>\<open>x.toFixed(1)\<close> as the string it is, for a finite \<open>x\<close>.\<close>

definition toFixed1 :: "real \<Rightarrow> string" where
  "toFixed1 a =
     (let n = nat (toFixed_scaled 1 \<bar>a\<bar>)
      in (if a < 0 then ''-'' else '''') @ string_of_nat (n div 10) @ ''.''
           @ string_of_nat (n mod 10))"

datatype num_or_string = NumV jsnum | StrV string

record zone_statistics =
  zoneCount :: nat
  totalInfectedCells :: nat
  averageZoneSize :: num_or_string
  largestZone :: nat

definition getZoneStatistics :: "cell list list \<Rightarrow> zone_statistics" where
  "getZoneStatistics zones =
     \<lparr>zoneCount = length zones,
      totalInfectedCells = foldl (\<lambda>sum zone. sum + length zone) 0 zones,
      averageZoneSize =
        (if length zones > 0
         then StrV (toFixed1 (real (foldl (\<lambda>sum zone. sum + length zone) 0 zones)
                                / real (length zones)))
         else NumV (Fin 0)),
      largestZone = (if length zones > 0 then Max (set (map length zones)) else 0)\<rparr>"

section \<open>Path planner (pathPlanner.js)\<close>

text \<open>\<open>Math.atan2\<close> on finite arguments.\<close>

definition atan2 :: "real \<Rightarrow> real \<Rightarrow> real" where
  "atan2 y x =
     (if 0 < x then arctan (y / x)
      else if x < 0 then (if 0 \<le> y then arctan (y / x) + pi else arctan (y / x) - pi)
      else if 0 < y then pi / 2 else if y < 0 then - (pi / 2) else 0)"

text \<open>
  The formula of \<open>calculateDistance\<close> on four finite coordinates, in exact arithmetic.
  \<open>Math.sqrt\<close> of a negative number is \<open>NaN\<close>. Exactly, the term \<open>a\<close> lies between 0 and 1
  (\<open>haversine_a_range\<close> below) and the distance is a finite number.
\<close>

definition haversine_a :: "real \<Rightarrow> real \<Rightarrow> real \<Rightarrow> real \<Rightarrow> real" where
  "haversine_a la1 lo1 la2 lo2 =
     (let lat1 = la1 * pi / 180;
          lat2 = la2 * pi / 180;
          deltaLat = (la2 - la1) * pi / 180;
          deltaLng = (lo2 - lo1) * pi / 180
      in sin (deltaLat / 2) * sin (deltaLat / 2) +
         cos lat1 * cos lat2 * sin (deltaLng / 2) * sin (deltaLng / 2))"

definition haversine :: "real \<Rightarrow> real \<Rightarrow> real \<Rightarrow> real \<Rightarrow> jsnum" where
  "haversine la1 lo1 la2 lo2 =
     (let R = 6371000; a = haversine_a la1 lo1 la2 lo2
      in if a < 0 \<or> 1 < a then NaN
         else Fin (R * (2 * atan2 (sqrt a) (sqrt (1 - a)))))"

text \<open>
  The code evaluates that formula in double arithmetic, through \<open>Math.sin\<close>, \<open>Math.cos\<close>,
  \<open>Math.sqrt\<close> and \<open>Math.atan2\<close>. Rounding can lift \<open>a\<close> just above 1 for two points that
  are nearly antipodal, and the distance is then \<open>NaN\<close>, which the exact formula never
  gives. So what the machine computes on four finite coordinates is a parameter \<open>hav\<close> of
  the planner, any function to a JavaScript number; \<open>haversine\<close> is the exact instance,
  used for the concrete runs below. A coordinate that is \<open>NaN\<close> or infinite makes the
  result \<open>NaN\<close> through every operation of the formula, whatever the rounding.
\<close>

type_synonym machine_haversine = "real \<Rightarrow> real \<Rightarrow> real \<Rightarrow> real \<Rightarrow> jsnum"

definition calculateDistance :: "machine_haversine \<Rightarrow> gps \<Rightarrow> gps \<Rightarrow> jsnum" where
  "calculateDistance hav p1 p2 =
     (case (lat p1, lng p1, lat p2, lng p2) of
        (Fin la1, Fin lo1, Fin la2, Fin lo2) \<Rightarrow> hav la1 lo1 la2 lo2
      | _ \<Rightarrow> NaN)"

record waypoint =
  cellId :: string
  position :: gps
  detectionCount :: nat

record spray_path =
  waypoints :: "waypoint list"
  totalDistance :: jsnum
  estimatedTime :: jsnum
  pathExists :: bool
  startPoint :: "gps option"
  endPoint :: "gps option"

definition waypoint_of :: "cell \<Rightarrow> waypoint" where
  "waypoint_of c =
     \<lparr>cellId = id_cell c, position = center c, detectionCount = length (detections c)\<rparr>"

text \<open>
  The set \<open>unvisited\<close> holds cell objects and iterates in insertion order: it is the list
  of the cells still to visit, each grid slot holding an object of its own. The inner
  \<open>for\<close> loop carries \<open>nearestCell\<close> (the position of the chosen cell in that list) and
  \<open>shortestDistance\<close>; \<open>unvisited.delete\<close> removes the cell at that position.
\<close>

fun nearest_scan ::
  "machine_haversine \<Rightarrow> gps \<Rightarrow> cell list \<Rightarrow> nat \<Rightarrow> nat option \<times> jsnum \<Rightarrow> nat option \<times> jsnum" where
  "nearest_scan hav currentPosition [] i best = best"
| "nearest_scan hav currentPosition (c # cs) i (nearestCell, shortestDistance) =
     (let distance = calculateDistance hav currentPosition (center c)
      in nearest_scan hav currentPosition cs (Suc i)
           (if js_lt distance shortestDistance then (Some i, distance)
            else (nearestCell, shortestDistance)))"

definition delete_at :: "nat \<Rightarrow> 'a list \<Rightarrow> 'a list" where
  "delete_at i xs = take i xs @ drop (Suc i) xs"

text \<open>
  The \<open>while\<close> loop. When the scan selects no cell (every distance is \<open>NaN\<close> or
  \<open>Infinity\<close>) the body changes nothing and the loop runs again on the same state: it
  never returns, which is the value \<open>None\<close>.
\<close>

partial_function (option) nn_loop ::
  "machine_haversine \<Rightarrow> cell list \<Rightarrow> gps \<Rightarrow> waypoint list \<Rightarrow> jsnum
     \<Rightarrow> (waypoint list \<times> gps \<times> jsnum) option" where
  "nn_loop hav unvisited currentPosition path totalDist =
     (if length unvisited > 0 then
        (case nearest_scan hav currentPosition unvisited 0 (None, PInf) of
           (None, shortestDistance) \<Rightarrow> nn_loop hav unvisited currentPosition path totalDist
         | (Some i, shortestDistance) \<Rightarrow>
             nn_loop hav (delete_at i unvisited) (center (unvisited ! i))
               (path @ [waypoint_of (unvisited ! i)]) (js_add totalDist shortestDistance))
      else Some (path, currentPosition, totalDist))"

definition no_path :: spray_path where
  "no_path =
     \<lparr>waypoints = [], totalDistance = Fin 0, estimatedTime = Fin 0, pathExists = False,
      startPoint = None, endPoint = None\<rparr>"

definition generateSprayPath :: "machine_haversine \<Rightarrow> grid \<Rightarrow> spray_path option" where
  "generateSprayPath hav g =
     (let infectedCells = getInfectedCells g
      in if length infectedCells = 0 then Some no_path
         else
           (let start = getFieldCenter
            in case nn_loop hav infectedCells start [] (Fin 0) of
                 None \<Rightarrow> None
               | Some (path, currentPosition, totalDist) \<Rightarrow>
                   (let returnDistance = calculateDistance hav currentPosition start;
                        closedDist = js_add totalDist returnDistance;
                        travelTime = js_div closedDist (Fin 5);
                        sprayTime = Fin (real (length path * 3));
                        estimated = js_add travelTime sprayTime
                    in Some \<lparr>waypoints = path,
                             totalDistance = parseFloat_toFixed 1 closedDist,
                             estimatedTime = math_ceil estimated,
                             pathExists = True,
                             startPoint = Some start,
                             endPoint = Some start\<rparr>)))"

text \<open>
  The length of a tour, summed leg by leg in visiting order with the machine's distances:
  from the start to the first position, between consecutive positions, and back to the
  start.
\<close>

fun legs :: "machine_haversine \<Rightarrow> gps \<Rightarrow> gps list \<Rightarrow> jsnum \<Rightarrow> jsnum" where
  "legs hav p [] acc = acc"
| "legs hav p (q # qs) acc = legs hav q qs (js_add acc (calculateDistance hav p q))"

definition tour_length :: "machine_haversine \<Rightarrow> gps \<Rightarrow> gps list \<Rightarrow> jsnum" where
  "tour_length hav start ps =
     js_add (legs hav start ps (Fin 0)) (calculateDistance hav (last (start # ps)) start)"

text \<open>A point whose two coordinates are finite numbers.\<close>

definition finite_point :: "gps \<Rightarrow> bool" where
  "finite_point p = (case (lat p, lng p) of (Fin a, Fin b) \<Rightarrow> True | _ \<Rightarrow> False)"

text \<open>
  Every distance the planner can compare on a list of cells, from the start or from the
  centre of one of the cells to the centre of one of the cells, is below \<open>Infinity\<close>
  (so it is not \<open>NaN\<close>): then every scan selects a cell.
\<close>

definition comparable :: "machine_haversine \<Rightarrow> gps \<Rightarrow> cell list \<Rightarrow> bool" where
  "comparable hav start cells =
     (\<forall>p \<in> set (start # map center cells). \<forall>c \<in> set cells.
        js_lt (calculateDistance hav p (center c)) PInf)"

section \<open>Concrete inputs\<close>

text \<open>
  The 10 by 10 grid with the 25 cells of its north-west corner infected, a fusion result
  of severity "high", and small grids for the planner.
\<close>

definition mark_corner :: "cell \<Rightarrow> cell" where
  "mark_corner c =
     (if row c < 5 \<and> col c < 5
      then c\<lparr>detections := [''det_'' @ id_cell c], infected := True\<rparr>
      else c)"

definition corner_grid :: grid where
  "corner_grid = map (map mark_corner) createFieldGrid"

definition fusion_high :: fusion_result where
  "fusion_high =
     \<lparr>diagnosis = Some \<lparr>severity = Some ''high'',
                        refined_diagnosis = Some ''Leaf Blight'',
                        confidence = Some (Fin (9 / 10))\<rparr>\<rparr>"

definition near_cell :: cell where
  "near_cell =
     \<lparr>row = 0, col = 0, id_cell = ''0_0'',
      center = \<lparr>lat = Fin (286139 / 10000 + 9 / 63710000), lng = Fin (772090 / 10000)\<rparr>,
      bounds = ((Fin (286139 / 10000), Fin (772089 / 10000)),
                (Fin (286140 / 10000), Fin (772091 / 10000))),
      detections = [''det_1''],
      infected = True\<rparr>"

definition far_cell :: cell where
  "far_cell =
     \<lparr>row = 1, col = 0, id_cell = ''1_0'',
      center = \<lparr>lat = Fin (286139 / 10000 - 18 / 63710000), lng = Fin (772090 / 10000)\<rparr>,
      bounds = ((Fin (286138 / 10000), Fin (772089 / 10000)),
                (Fin (286139 / 10000), Fin (772091 / 10000))),
      detections = [''det_2'', ''det_3''],
      infected = True\<rparr>"

definition healthy_cell :: cell where
  "healthy_cell =
     \<lparr>row = 2, col = 0, id_cell = ''2_0'',
      center = \<lparr>lat = Fin (286135 / 10000), lng = Fin (772090 / 10000)\<rparr>,
      bounds = ((Fin (286134 / 10000), Fin (772089 / 10000)),
                (Fin (286136 / 10000), Fin (772091 / 10000))),
      detections = [],
      infected = False\<rparr>"

definition small_grid :: grid where
  "small_grid = [[far_cell], [near_cell], [healthy_cell]]"


definition unsorted_alerts :: "alert list" where
  "unsorted_alerts =
     [mk_alert (signals_default ''t'') RULE_002, mk_alert (signals_default ''t'') RULE_001]"

definition sorted_alerts :: "alert list" where
  "sorted_alerts =
     [mk_alert (signals_default ''t'') RULE_001, mk_alert (signals_default ''t'') RULE_002,
      mk_alert (signals_default ''t'') RULE_009]"

definition corner_signals :: signals where
  "corner_signals =
     \<lparr>infectionPercentage = Fin 0, roiRatio = Fin 0, potentialLoss = Fin 0,
      soilMoisture = Fin 50, soilTemperature = Fin 25, airHumidity = Fin 60,
      fusionSeverity = ''high'', fusionDiagnosis = ''Leaf Blight'',
      fusionConfidence = Fin (9 / 10), infectionGrowthRate = Fin 0, timestamp = ''t'',
      infectedCount = Some (Fin 25), totalCells = Some (Fin 100)\<rparr>"

definition boundary_signals :: signals where
  "boundary_signals =
     (signals_default ''t'')\<lparr>infectionPercentage := Fin 25, fusionSeverity := ''high''\<rparr>"

section \<open>Signal extraction: properties\<close>

lemma infectionPercentage_growth_rate [simp]:
  "infectionPercentage (growth_rate s) = infectionPercentage s"
  by (simp add: growth_rate_def)

lemma infectionPercentage_from_sensorData [simp]:
  "infectionPercentage (from_sensorData sd s) = infectionPercentage s"
  by (simp add: from_sensorData_def split: option.splits)

lemma infectionPercentage_from_fusionResults [simp]:
  "infectionPercentage (from_fusionResults fr s) = infectionPercentage s"
  by (simp add: from_fusionResults_def split: option.splits)

lemma infectionPercentage_from_economicImpact [simp]:
  "infectionPercentage (from_economicImpact ei s) = infectionPercentage s"
  by (simp add: from_economicImpact_def split: option.splits)

lemma infectionPercentage_extractSignals:
  "infectionPercentage (extractSignals now d gs ei fr sd) =
     (case gs of None \<Rightarrow> Fin 0 | Some g \<Rightarrow> num_or (g ''infectionPercentage'') (Fin 0))"
  by (simp add: extractSignals_def from_gridStats_def signals_default_def split: option.splits)

lemma calculateGridStats_no_infectionPercentage:
  "calculateGridStats g ''infectionPercentage'' = None"
  by (simp add: calculateGridStats_def Let_def)

text \<open>
  Claim C2. Whatever the grid, the signal snapshot built from \<open>calculateGridStats grid\<close>
  has \<open>infectionPercentage = 0\<close>: the statistics carry the property \<open>infectedPercentage\<close>,
  the extractor reads \<open>infectionPercentage\<close>, finds it missing and falls back to 0.
\<close>

theorem extractSignals_of_calculateGridStats_infection_zero:
  "infectionPercentage
     (extractSignals now d (Some (calculateGridStats g)) ei fr sd) = Fin 0"
  by (simp add: infectionPercentage_extractSignals calculateGridStats_no_infectionPercentage
      num_or_def)

lemma num_or_not_NaN: "d \<noteq> NaN \<Longrightarrow> num_or v d \<noteq> NaN"
  by (auto simp: num_or_def split: option.splits)

lemma infectionPercentage_extractSignals_not_NaN:
  "infectionPercentage (extractSignals now d gs ei fr sd) \<noteq> NaN"
  by (simp add: infectionPercentage_extractSignals num_or_not_NaN split: option.splits)

lemma js_le_iff_not_gt: "a \<noteq> NaN \<Longrightarrow> b \<noteq> NaN \<Longrightarrow> js_le a b = (\<not> js_gt a b)"
  by (cases a; cases b) (auto simp: js_le_def js_gt_def)

lemma infectionGrowthRate_from [simp]:
  "infectionGrowthRate (from_sensorData sd s) = infectionGrowthRate s"
  "infectionGrowthRate (from_fusionResults fr s) = infectionGrowthRate s"
  "infectionGrowthRate (from_economicImpact ei s) = infectionGrowthRate s"
  "infectionGrowthRate (from_gridStats gs s) = infectionGrowthRate s"
  by (simp_all add: from_sensorData_def from_fusionResults_def from_economicImpact_def
      from_gridStats_def split: option.splits)

text \<open>
  Claim C8. In every snapshot \<open>extractSignals\<close> returns, \<open>infectionGrowthRate\<close> is
  \<open>infectionPercentage * 0.15\<close> when \<open>infectionPercentage > 15\<close>, \<open>infectionPercentage * 0.1\<close>
  when \<open>5 < infectionPercentage \<le> 15\<close>, and 0 otherwise. The percentage of a snapshot is
  never \<open>NaN\<close> (\<open>|| 0\<close> replaces it), so "not above 15" and "at most 15" agree.
\<close>

theorem extractSignals_growth_rate:
  "infectionGrowthRate (extractSignals now d gs ei fr sd) =
     (let p = infectionPercentage (extractSignals now d gs ei fr sd)
      in if js_gt p (Fin 15) then js_mul p (Fin (15 / 100))
         else if js_gt p (Fin 5) \<and> js_le p (Fin 15) then js_mul p (Fin (10 / 100))
         else Fin 0)"
proof -
  let ?s = "from_sensorData sd (from_fusionResults fr (from_economicImpact ei
              (from_gridStats gs (signals_default now))))"
  have p: "infectionPercentage (extractSignals now d gs ei fr sd) = infectionPercentage ?s"
    by (simp add: extractSignals_def)
  have nn: "infectionPercentage ?s \<noteq> NaN"
    using infectionPercentage_extractSignals_not_NaN [of now d gs ei fr sd] p by simp
  have g0: "infectionGrowthRate ?s = Fin 0"
    by (simp add: signals_default_def)
  have le: "\<not> js_gt (infectionPercentage ?s) (Fin 15) \<Longrightarrow> js_le (infectionPercentage ?s) (Fin 15)"
    using nn by (simp add: js_le_iff_not_gt)
  show ?thesis
    unfolding p Let_def
    using g0 le by (simp add: extractSignals_def growth_rate_def)
qed

theorem extractSignals_growth_rate_witness:
  "infectionGrowthRate
     (extractSignals ''t'' () (Some [''infectionPercentage'' \<mapsto> Fin 20]) None None None) = Fin 3 \<and>
   infectionGrowthRate
     (extractSignals ''t'' () (Some [''infectionPercentage'' \<mapsto> Fin 10]) None None None) = Fin 1 \<and>
   infectionGrowthRate
     (extractSignals ''t'' () (Some [''infectionPercentage'' \<mapsto> Fin 5]) None None None) = Fin 0"
  using extractSignals_growth_rate [of "''t''" "()" "Some [''infectionPercentage'' \<mapsto> Fin 20]" None None None]
    extractSignals_growth_rate [of "''t''" "()" "Some [''infectionPercentage'' \<mapsto> Fin 10]" None None None]
    extractSignals_growth_rate [of "''t''" "()" "Some [''infectionPercentage'' \<mapsto> Fin 5]" None None None]
  by (simp add: infectionPercentage_extractSignals num_or_def js_gt_def js_le_def)

text \<open>
  Claim C10. With a sensor reading present, a reading of 0 is replaced by the default:
  \<open>soil_moisture = 0\<close> gives \<open>soilMoisture = 50\<close>, \<open>soil_temperature = 0\<close> gives
  \<open>soilTemperature = 25\<close>, \<open>air_humidity = 0\<close> gives \<open>airHumidity = 60\<close>; so a zero moisture
  reading does not satisfy \<open>soilMoisture < 20\<close>.
\<close>

theorem extractSignals_zero_reading_replaced:
  "(sd ''soil_moisture'' = Some (Fin 0) \<longrightarrow>
      soilMoisture (extractSignals now d gs ei fr (Some sd)) = Fin 50 \<and>
      \<not> js_lt (soilMoisture (extractSignals now d gs ei fr (Some sd))) (Fin 20)) \<and>
   (sd ''soil_temperature'' = Some (Fin 0) \<longrightarrow>
      soilTemperature (extractSignals now d gs ei fr (Some sd)) = Fin 25) \<and>
   (sd ''air_humidity'' = Some (Fin 0) \<longrightarrow>
      airHumidity (extractSignals now d gs ei fr (Some sd)) = Fin 60)"
  by (simp add: extractSignals_def growth_rate_def from_sensorData_def num_or_def)

theorem extractSignals_zero_reading_replaced_witness:
  "soilMoisture (extractSignals ''t'' () None None None
      (Some [''soil_moisture'' \<mapsto> Fin 0, ''soil_temperature'' \<mapsto> Fin 0,
             ''air_humidity'' \<mapsto> Fin 0])) = Fin 50 \<and>
   soilTemperature (extractSignals ''t'' () None None None
      (Some [''soil_moisture'' \<mapsto> Fin 0, ''soil_temperature'' \<mapsto> Fin 0,
             ''air_humidity'' \<mapsto> Fin 0])) = Fin 25 \<and>
   airHumidity (extractSignals ''t'' () None None None
      (Some [''soil_moisture'' \<mapsto> Fin 0, ''soil_temperature'' \<mapsto> Fin 0,
             ''air_humidity'' \<mapsto> Fin 0])) = Fin 60"
  using extractSignals_zero_reading_replaced [of
      "[''soil_moisture'' \<mapsto> Fin 0, ''soil_temperature'' \<mapsto> Fin 0, ''air_humidity'' \<mapsto> Fin 0]"
      "''t''" "()" None None None]
  by simp

section \<open>Division by zero\<close>

lemma getZoneStatistics_empty:
  "averageZoneSize (getZoneStatistics []) = NumV (Fin 0)"
  by (simp add: getZoneStatistics_def)

text \<open>
  Claim C9. \<open>getZoneStatistics\<close> guards its division (\<open>getZoneStatistics_empty\<close>), but
  \<open>calculateGridStats\<close> does not: on a grid without cells it computes \<open>0 / 0\<close>, and both
  \<open>infectedPercentage\<close> and \<open>healthyPercentage\<close> are \<open>NaN\<close>, not 0.
\<close>

theorem calculateGridStats_empty_grid_NaN:
  "calculateGridStats [] ''infectedPercentage'' = Some NaN \<and>
   calculateGridStats [] ''healthyPercentage'' = Some NaN"
  by (simp add: calculateGridStats_def flattenGrid_def js_sub_def)

section \<open>Debouncer: properties\<close>

text \<open>
  Claim C5. With the 30 second window and a key not yet emitted, three calls for that key
  at times \<open>t1\<close>, \<open>t2\<close>, \<open>t3\<close>: the first is shown; the second, no later than 30000 ms
  after the first, is suppressed and leaves the state as it is; the third, more than
  30000 ms after the first, is shown again, and the stored time is then \<open>t3\<close>.
  \<open>Date.now()\<close> counts milliseconds since 1970, so \<open>t1\<close> is positive.
\<close>

theorem shouldShowAlert_window:
  assumes fresh: "recentAlerts d0 k = None"
    and win: "windowMs d0 = 30000"
    and keys: "alert_key a1 = k" "alert_key a2 = k" "alert_key a3 = k"
    and clock: "0 < t1"
    and within: "t2 - t1 \<le> 30000"
    and after: "t3 - t1 > 30000"
  shows "(case shouldShowAlert d0 a1 t1 of (r1, d1) \<Rightarrow>
          case shouldShowAlert d1 a2 t2 of (r2, d2) \<Rightarrow>
          case shouldShowAlert d2 a3 t3 of (r3, d3) \<Rightarrow>
            r1 \<and> \<not> r2 \<and> r3 \<and>
            recentAlerts d1 k = Some t1 \<and> d2 = d1 \<and> recentAlerts d3 k = Some t3)"
proof -
  obtain r1 d1 where c1: "shouldShowAlert d0 a1 t1 = (r1, d1)" by (cases "shouldShowAlert d0 a1 t1")
  obtain r2 d2 where c2: "shouldShowAlert d1 a2 t2 = (r2, d2)" by (cases "shouldShowAlert d1 a2 t2")
  obtain r3 d3 where c3: "shouldShowAlert d2 a3 t3 = (r3, d3)" by (cases "shouldShowAlert d2 a3 t3")
  from c1 fresh keys(1) have 1: "r1" "d1 = d0\<lparr>recentAlerts := (recentAlerts d0)(k \<mapsto> t1)\<rparr>"
    by (auto simp: shouldShowAlert_def Let_def)
  from c2 1 win keys(2) clock within have 2: "\<not> r2" "d2 = d1"
    by (auto simp: shouldShowAlert_def Let_def)
  from c3 1 2 win keys(3) after have 3: "r3" "recentAlerts d3 k = Some t3"
    by (auto simp: shouldShowAlert_def Let_def)
  from 1 2 3 c1 c2 c3 show ?thesis by simp
qed

theorem shouldShowAlert_window_witness:
  "(case shouldShowAlert alertDebouncer (mk_alert (signals_default ''t'') RULE_001) 1000 of
      (r1, d1) \<Rightarrow>
    case shouldShowAlert d1 (mk_alert (signals_default ''t'') RULE_001) 20000 of
      (r2, d2) \<Rightarrow>
    case shouldShowAlert d2 (mk_alert (signals_default ''t'') RULE_001) 50000 of
      (r3, d3) \<Rightarrow>
      r1 \<and> \<not> r2 \<and> r3 \<and>
      recentAlerts d1 ''RULE_001_CRITICAL'' = Some 1000 \<and> d2 = d1 \<and>
      recentAlerts d3 ''RULE_001_CRITICAL'' = Some 50000)"
  using shouldShowAlert_window [of alertDebouncer "''RULE_001_CRITICAL''"
      "mk_alert (signals_default ''t'') RULE_001" "mk_alert (signals_default ''t'') RULE_001"
      "mk_alert (signals_default ''t'') RULE_001" 1000 20000 50000]
  by (simp add: alertDebouncer_def AlertDebouncer_def alert_key_def mk_alert_def RULE_001_def)

section \<open>Conflict resolver: properties\<close>

lemma first_of_take: "first_of xs = take 1 xs"
  by (cases xs) (simp_all add: first_of_def)

lemma filter_category_first:
  "filter (\<lambda>a. category_of a = c) (first_of (filter (\<lambda>a. category_of a = c') xs)) =
     (if c = c' then first_of (filter (\<lambda>a. category_of a = c') xs) else [])"
proof (cases "filter (\<lambda>a. category_of a = c') xs")
  case Nil
  then show ?thesis by (simp add: first_of_def)
next
  case (Cons y ys)
  then have "y \<in> set (filter (\<lambda>a. category_of a = c') xs)" by simp
  then have "category_of y = c'" by simp
  with Cons show ?thesis by (auto simp: first_of_def)
qed

lemma resolveConflicts_filter:
  "filter (\<lambda>a. category_of a = c) (resolveConflicts xs) =
     take 1 (filter (\<lambda>a. category_of a = c) xs)"
proof (cases "length xs \<le> 1")
  case True
  then have "length (filter (\<lambda>a. category_of a = c) xs) \<le> 1"
    using length_filter_le [of "\<lambda>a. category_of a = c" xs] by linarith
  with True show ?thesis by (simp add: resolveConflicts_def)
next
  case False
  then have "filter (\<lambda>a. category_of a = c) (resolveConflicts xs) =
      first_of (filter (\<lambda>a. category_of a = c) xs)"
    by (cases c) (simp_all add: resolveConflicts_def filter_category_first)
  then show ?thesis by (simp only: first_of_take)
qed

lemma first_of_length: "length (first_of ys) \<le> 1"
  by (simp add: first_of_def)

lemma resolveConflicts_length: "length (resolveConflicts xs) \<le> 4"
proof (cases "length xs \<le> 1")
  case True
  then show ?thesis by (simp add: resolveConflicts_def)
next
  case False
  have "length (resolveConflicts xs) =
      length (first_of (filter (\<lambda>a. category_of a = Disease) xs)) +
      length (first_of (filter (\<lambda>a. category_of a = Environmental) xs)) +
      length (first_of (filter (\<lambda>a. category_of a = Economic) xs)) +
      length (first_of (filter (\<lambda>a. category_of a = System) xs))"
    using False by (simp add: resolveConflicts_def)
  also have "\<dots> \<le> 1 + 1 + 1 + 1"
    by (intro add_mono first_of_length)
  finally show ?thesis by simp
qed

lemma sorted_filter_head_least:
  assumes "sorted (map f xs)" "filter P xs = z # zs" "y \<in> set xs" "P y"
  shows "f z \<le> f y"
proof -
  have "sorted (map f (filter P xs))"
    using assms(1) by (simp add: sorted_filter)
  then have "sorted (map f (z # zs))" using assms(2) by simp
  moreover have "y \<in> set (filter P xs)" using assms(3,4) by simp
  then have "y \<in> set (z # zs)" using assms(2) by simp
  ultimately show ?thesis by auto
qed

lemma resolveConflicts_member:
  assumes "x \<in> set (resolveConflicts xs)"
  shows "\<exists>zs. filter (\<lambda>a. category_of a = category_of x) xs = x # zs"
proof -
  from assms have "x \<in> set (filter (\<lambda>a. category_of a = category_of x) (resolveConflicts xs))"
    by simp
  then have "x \<in> set (take 1 (filter (\<lambda>a. category_of a = category_of x) xs))"
    by (simp only: resolveConflicts_filter)
  then show ?thesis
    by (cases "filter (\<lambda>a. category_of a = category_of x) xs") auto
qed

text \<open>
  Claim C4, as the code has it. \<open>resolveConflicts\<close> returns at most four alerts, at most
  one of each category, and the survivor of a category is the first alert of that
  category in the input. When the input is sorted by ascending priority, as
  \<open>evaluateAlerts\<close> returns it, the survivor has the least priority number of its category.
\<close>

theorem resolveConflicts_first_per_category:
  "length (resolveConflicts xs) \<le> 4 \<and>
   (\<forall>c. length (filter (\<lambda>a. category_of a = c) (resolveConflicts xs)) \<le> 1) \<and>
   (\<forall>c. filter (\<lambda>a. category_of a = c) (resolveConflicts xs) =
          take 1 (filter (\<lambda>a. category_of a = c) xs)) \<and>
   (sorted (map priority xs) \<longrightarrow>
      (\<forall>x \<in> set (resolveConflicts xs). \<forall>y \<in> set xs.
          category_of y = category_of x \<longrightarrow> priority x \<le> priority y))"
proof (intro conjI allI impI ballI)
  show "length (resolveConflicts xs) \<le> 4" by (rule resolveConflicts_length)
next
  fix c show "length (filter (\<lambda>a. category_of a = c) (resolveConflicts xs)) \<le> 1"
    by (simp add: resolveConflicts_filter)
next
  fix c show "filter (\<lambda>a. category_of a = c) (resolveConflicts xs) =
          take 1 (filter (\<lambda>a. category_of a = c) xs)" by (rule resolveConflicts_filter)
next
  fix x y
  assume s: "sorted (map priority xs)" and x: "x \<in> set (resolveConflicts xs)"
    and y: "y \<in> set xs" and c: "category_of y = category_of x"
  from resolveConflicts_member [OF x] obtain zs
    where "filter (\<lambda>a. category_of a = category_of x) xs = x # zs" ..
  from sorted_filter_head_least [OF s this y c] show "priority x \<le> priority y" .
qed

lemma category_of_rule_alerts:
  "category_of (mk_alert s RULE_001) = Disease"
  "category_of (mk_alert s RULE_002) = Disease"
  "category_of (mk_alert s RULE_009) = System"
  by (simp_all add: category_of_def mk_alert_def RULE_001_def RULE_002_def RULE_009_def
      str_includes_def sublist_code)

lemma priority_rule_alerts:
  "priority (mk_alert s RULE_001) = 1"
  "priority (mk_alert s RULE_002) = 2"
  "priority (mk_alert s RULE_009) = 5"
  by (simp_all add: mk_alert_def RULE_001_def RULE_002_def RULE_009_def)

theorem resolveConflicts_first_per_category_witness:
  "length (resolveConflicts sorted_alerts) \<le> 4 \<and>
   filter (\<lambda>a. category_of a = Disease) (resolveConflicts sorted_alerts) =
     [mk_alert (signals_default ''t'') RULE_001] \<and>
   priority (mk_alert (signals_default ''t'') RULE_001)
     \<le> priority (mk_alert (signals_default ''t'') RULE_002)"
proof -
  note t = resolveConflicts_first_per_category [of sorted_alerts]
  have "filter (\<lambda>a. category_of a = Disease) (resolveConflicts sorted_alerts) =
      take 1 (filter (\<lambda>a. category_of a = Disease) sorted_alerts)"
    using t by blast
  then have "filter (\<lambda>a. category_of a = Disease) (resolveConflicts sorted_alerts) =
      [mk_alert (signals_default ''t'') RULE_001]"
    by (simp add: sorted_alerts_def category_of_rule_alerts)
  moreover have "length (resolveConflicts sorted_alerts) \<le> 4" using t by blast
  ultimately show ?thesis by (simp add: priority_rule_alerts)
qed

text \<open>
  The input below is not sorted by priority: the warning (priority 2) stands before the
  critical alert (priority 1) of the same category. The resolver keeps the warning.
\<close>

theorem resolveConflicts_unsorted_counterexample:
  "resolveConflicts unsorted_alerts = [mk_alert (signals_default ''t'') RULE_002] \<and>
   category_of (mk_alert (signals_default ''t'') RULE_001) =
     category_of (mk_alert (signals_default ''t'') RULE_002) \<and>
   priority (mk_alert (signals_default ''t'') RULE_001)
     < priority (mk_alert (signals_default ''t'') RULE_002)"
  by (simp add: resolveConflicts_def unsorted_alerts_def first_of_def category_of_rule_alerts
      priority_rule_alerts)

section \<open>Rule engine: the 25 percent boundary\<close>

lemma upt_10: "[0..<10] = [0, 1, 2, 3, 4, 5, 6, 7, 8, 9]"
  by code_simp

lemma infected_mark_corner: "infected (mark_corner (createCell r c)) = (r < 5 \<and> c < 5)"
  by (simp add: mark_corner_def createCell_def Let_def)

lemma corner_grid_total: "length (flattenGrid corner_grid) = 100"
  by (simp add: flattenGrid_def corner_grid_def createFieldGrid_def GRID_CONFIG_rows_def
      GRID_CONFIG_cols_def length_concat comp_def upt_10)

lemma corner_grid_infected: "length (getInfectedCells corner_grid) = 25"
  by (simp add: getInfectedCells_def flattenGrid_def corner_grid_def createFieldGrid_def
      GRID_CONFIG_rows_def GRID_CONFIG_cols_def upt_10 infected_mark_corner)

lemma corner_grid_stats:
  "calculateGridStats corner_grid =
     [''totalCells'' \<mapsto> Fin 100, ''infectedCount'' \<mapsto> Fin 25, ''healthyCount'' \<mapsto> Fin 75,
      ''infectedPercentage'' \<mapsto> Fin 25, ''healthyPercentage'' \<mapsto> Fin 75,
      ''chemicalSavings'' \<mapsto> Fin 75]"
proof -
  have "length (filter infected (flattenGrid corner_grid)) = 25"
    using corner_grid_infected by (simp add: getInfectedCells_def)
  moreover have "flattenGrid corner_grid \<noteq> []"
    using corner_grid_total by auto
  ultimately show ?thesis
    by (simp add: calculateGridStats_def Let_def corner_grid_total js_sub_def
        round_fixed_def toFixed_scaled_def)
qed

lemma ruleName_mk_alert: "ruleName (mk_alert s r) = name_rule r"
  by (simp add: mk_alert_def)

lemma rule_names:
  "name_rule RULE_001 = ''Critical Infection Outbreak''"
  "name_rule RULE_003 = ''Critical Drought Stress''"
  "name_rule RULE_007 = ''High Economic Risk''"
  "name_rule RULE_008 = ''Rapid Infection Growth''"
  "name_rule RULE_002 = ''Moderate Infection Warning''"
  "name_rule RULE_004 = ''Heat Stress Alert''"
  "name_rule RULE_005 = ''Fungal Outbreak Risk''"
  "name_rule RULE_006 = ''Low ROI Warning''"
  "name_rule RULE_010 = ''Early Detection - Preventive Action''"
  "name_rule RULE_009 = ''System Healthy''"
  by (simp_all add: RULE_001_def RULE_002_def RULE_003_def RULE_004_def
      RULE_005_def RULE_006_def RULE_007_def RULE_008_def RULE_009_def RULE_010_def)

lemma evaluateAlerts_names:
  "x \<in> set (map ruleName (evaluateAlerts s)) \<longleftrightarrow>
     (\<exists>r \<in> set DECISION_RULES. condition r s \<and> name_rule r = x)"
  by (auto simp: evaluateAlerts_def ruleName_mk_alert image_iff)

lemma outbreak_iff:
  "''Critical Infection Outbreak'' \<in> set (map ruleName (evaluateAlerts s)) \<longleftrightarrow>
     condition RULE_001 s"
  unfolding evaluateAlerts_names by (simp add: DECISION_RULES_def rule_names)

lemma healthy_iff:
  "''System Healthy'' \<in> set (map ruleName (evaluateAlerts s)) \<longleftrightarrow>
     condition RULE_009 s"
  unfolding evaluateAlerts_names by (simp add: DECISION_RULES_def rule_names)

lemma moderate_iff:
  "''Moderate Infection Warning'' \<in> set (map ruleName (evaluateAlerts s)) \<longleftrightarrow>
     condition RULE_002 s"
  unfolding evaluateAlerts_names by (simp add: DECISION_RULES_def rule_names)

text \<open>
  Claim C1, as the code has it. For a grid of 100 cells with exactly 25 infected, the
  pipeline \<open>calculateGridStats\<close>, \<open>extractSignals\<close>, \<open>evaluateAlerts\<close> does not raise
  "Critical Infection Outbreak": the rule asks for an infection percentage strictly above
  25. On a snapshot whose percentage is exactly 25, the engine raises neither that alert
  nor "System Healthy", and with severity "high" it raises "Moderate Infection Warning".
\<close>

theorem boundary_25_not_outbreak:
  "(length (flattenGrid g) = 100 \<and> length (getInfectedCells g) = 25 \<longrightarrow>
      ''Critical Infection Outbreak'' \<notin>
        set (map ruleName
          (evaluateAlerts (extractSignals now d (Some (calculateGridStats g)) ei fr sd)))) \<and>
   (infectionPercentage s = Fin 25 \<longrightarrow>
      ''Critical Infection Outbreak'' \<notin> set (map ruleName (evaluateAlerts s)) \<and>
      ''System Healthy'' \<notin> set (map ruleName (evaluateAlerts s)) \<and>
      (fusionSeverity s = ''high'' \<longrightarrow>
         ''Moderate Infection Warning'' \<in> set (map ruleName (evaluateAlerts s))))"
proof -
  have "infectionPercentage (extractSignals now d (Some (calculateGridStats g)) ei fr sd) = Fin 0"
    by (simp add: infectionPercentage_extractSignals calculateGridStats_no_infectionPercentage
        num_or_def)
  then have "\<not> condition RULE_001 (extractSignals now d (Some (calculateGridStats g)) ei fr sd)"
    by (simp add: RULE_001_def js_gt_def)
  moreover have "infectionPercentage s = Fin 25 \<Longrightarrow> \<not> condition RULE_001 s"
    by (simp add: RULE_001_def js_gt_def)
  moreover have "infectionPercentage s = Fin 25 \<Longrightarrow> \<not> condition RULE_009 s"
    by (simp add: RULE_009_def)
  moreover have "infectionPercentage s = Fin 25 \<Longrightarrow> fusionSeverity s = ''high'' \<Longrightarrow>
      condition RULE_002 s"
    by (simp add: RULE_002_def js_ge_def js_le_def)
  ultimately show ?thesis
    by (simp only: outbreak_iff healthy_iff moderate_iff) blast
qed

lemma corner_signals_eq:
  "extractSignals ''t'' () (Some (calculateGridStats corner_grid)) None (Some [fusion_high]) None =
     corner_signals"
  by (simp add: extractSignals_def corner_grid_stats signals_default_def from_gridStats_def
      from_economicImpact_def from_fusionResults_def from_sensorData_def growth_rate_def
      fusion_high_def num_or_def str_or_def js_gt_def corner_signals_def)

lemma lower_leaf: "toLowerCase ''Leaf Blight'' = ''leaf blight''"
  by code_simp

lemma leaf_mentions:
  "\<not> mentions ''Leaf Blight'' ''drought''" "\<not> mentions ''Leaf Blight'' ''heat''"
  "\<not> mentions ''Leaf Blight'' ''fungal''" "\<not> mentions ''Leaf Blight'' ''healthy''"
  by (simp_all add: mentions_def lower_leaf str_includes_def sublist_code)

lemma corner_conditions:
  "\<not> condition RULE_001 corner_signals" "\<not> condition RULE_003 corner_signals"
  "\<not> condition RULE_007 corner_signals" "\<not> condition RULE_008 corner_signals"
  "\<not> condition RULE_002 corner_signals" "\<not> condition RULE_004 corner_signals"
  "\<not> condition RULE_005 corner_signals" "\<not> condition RULE_006 corner_signals"
  "\<not> condition RULE_010 corner_signals" "\<not> condition RULE_009 corner_signals"
  by (simp_all add: RULE_001_def RULE_002_def RULE_003_def RULE_004_def RULE_005_def
      RULE_006_def RULE_007_def RULE_008_def RULE_009_def RULE_010_def corner_signals_def
      js_gt_def js_ge_def js_le_def leaf_mentions)

text \<open>
  The scenario of the claim: the 10 by 10 grid with the 25 cells of one corner infected
  and a fusion result of severity "high". The statistics say 25 percent, the snapshot
  says 0, and no rule fires.
\<close>

theorem pipeline_25_of_100_counterexample:
  "length (flattenGrid corner_grid) = 100 \<and> length (getInfectedCells corner_grid) = 25 \<and>
   calculateGridStats corner_grid ''infectedPercentage'' = Some (Fin 25) \<and>
   evaluateAlerts
     (extractSignals ''t'' () (Some (calculateGridStats corner_grid)) None (Some [fusion_high])
        None) = []"
proof -
  have "evaluateAlerts corner_signals = []"
    by (simp add: evaluateAlerts_def DECISION_RULES_def corner_conditions)
  then have "evaluateAlerts
     (extractSignals ''t'' () (Some (calculateGridStats corner_grid)) None (Some [fusion_high])
        None) = []"
    by (simp only: corner_signals_eq)
  moreover have "calculateGridStats corner_grid ''infectedPercentage'' = Some (Fin 25)"
    by (simp add: corner_grid_stats)
  ultimately show ?thesis
    using corner_grid_total corner_grid_infected by blast
qed

theorem boundary_25_not_outbreak_witness:
  "length (flattenGrid corner_grid) = 100 \<and> length (getInfectedCells corner_grid) = 25 \<and>
   ''Critical Infection Outbreak'' \<notin>
      set (map ruleName
        (evaluateAlerts (extractSignals ''t'' () (Some (calculateGridStats corner_grid)) None
           (Some [fusion_high]) None))) \<and>
   infectionPercentage boundary_signals = Fin 25 \<and> fusionSeverity boundary_signals = ''high'' \<and>
   ''Critical Infection Outbreak'' \<notin> set (map ruleName (evaluateAlerts boundary_signals)) \<and>
   ''System Healthy'' \<notin> set (map ruleName (evaluateAlerts boundary_signals)) \<and>
   ''Moderate Infection Warning'' \<in> set (map ruleName (evaluateAlerts boundary_signals))"
proof -
  note t = boundary_25_not_outbreak [of corner_grid "''t''" "()" None "Some [fusion_high]" None
      boundary_signals]
  have h1: "infectionPercentage boundary_signals = Fin 25"
    by (simp add: boundary_signals_def)
  have h2: "fusionSeverity boundary_signals = ''high''"
    by (simp add: boundary_signals_def)
  from t h1 h2 corner_grid_total corner_grid_infected show ?thesis by blast
qed

section \<open>Path planner: properties\<close>

lemma haversine_a_range:
  "0 \<le> haversine_a la1 lo1 la2 lo2 \<and> haversine_a la1 lo1 la2 lo2 \<le> 1"
proof -
  define u where "u = la1 * pi / 180"
  define v where "v = la2 * pi / 180"
  define s where "s = sin ((la2 - la1) * pi / 180 / 2)"
  define t where "t = sin ((lo2 - lo1) * pi / 180 / 2)"
  define p where "p = cos u * cos v"
  have a: "haversine_a la1 lo1 la2 lo2 = s\<^sup>2 + p * t\<^sup>2"
    by (simp add: haversine_a_def Let_def s_def t_def p_def u_def v_def power2_eq_square algebra_simps)
  have half: "(la2 - la1) * pi / 180 / 2 = (v - u) / 2"
    by (simp add: u_def v_def diff_divide_distrib left_diff_distrib)
  have "cos (2 * ((v - u) / 2)) = 1 - 2 * (sin ((v - u) / 2))\<^sup>2"
    by (rule cos_double_sin)
  moreover have "2 * ((v - u) / 2) = v - u" by simp
  ultimately have "cos (v - u) = 1 - 2 * (sin ((v - u) / 2))\<^sup>2"
    by (simp only:)
  then have cd: "cos (v - u) = 1 - 2 * s\<^sup>2"
    by (simp only: s_def half)
  have pp: "p = (cos (u - v) + cos (u + v)) / 2"
    unfolding p_def by (rule cos_times_cos)
  have cuv: "cos (u - v) = cos (v - u)"
    using cos_minus [of "v - u"] by simp
  have p2: "2 * p = 1 - 2 * s\<^sup>2 + cos (u + v)"
    using pp cd cuv by simp
  have plo: "- (s\<^sup>2) \<le> p"
    using p2 cos_ge_minus_one [of "u + v"] by linarith
  have phi: "p \<le> 1 - s\<^sup>2"
    using p2 cos_le_one [of "u + v"] by linarith
  have t01: "0 \<le> t\<^sup>2" "t\<^sup>2 \<le> 1"
    by (simp_all add: t_def abs_square_le_1 )
  have s0: "0 \<le> s\<^sup>2" by simp
  show ?thesis
  proof (cases "0 \<le> p")
    case True
    have "p * t\<^sup>2 \<le> p * 1" using True t01 by (intro mult_left_mono) auto
    moreover have "0 \<le> p * t\<^sup>2" using True t01 by simp
    ultimately show ?thesis using a phi s0 by linarith
  next
    case False
    then have "p * 1 \<le> p * t\<^sup>2" using t01 by (intro mult_left_mono_neg) auto
    moreover have "p * t\<^sup>2 \<le> 0" using False t01 by (simp add: mult_nonpos_nonneg)
    moreover have "s\<^sup>2 \<le> 1" by (simp add: s_def abs_square_le_1)
    ultimately show ?thesis using a plo by linarith
  qed
qed

lemma haversine_finite: "\<exists>d. haversine la1 lo1 la2 lo2 = Fin d"
  using haversine_a_range [of la1 lo1 la2 lo2] by (simp add: haversine_def Let_def)

lemma calculateDistance_Fin:
  "calculateDistance hav \<lparr>lat = Fin la1, lng = Fin lo1\<rparr> \<lparr>lat = Fin la2, lng = Fin lo2\<rparr> =
     hav la1 lo1 la2 lo2"
  by (simp add: calculateDistance_def)


lemma nearest_scan_cases:
  "nearest_scan hav cur cs i best = best \<or>
   (\<exists>j<length cs. nearest_scan hav cur cs i best =
      (Some (i + j), calculateDistance hav cur (center (cs ! j))))"
proof (induction cs arbitrary: i best)
  case Nil
  then show ?case by simp
next
  case (Cons c cs)
  obtain n sd where best: "best = (n, sd)" by (cases best)
  let ?b = "if js_lt (calculateDistance hav cur (center c)) sd
            then (Some i, calculateDistance hav cur (center c)) else (n, sd)"
  have step: "nearest_scan hav cur (c # cs) i best = nearest_scan hav cur cs (Suc i) ?b"
    by (simp add: best Let_def)
  from Cons.IH [of "Suc i" ?b] show ?case
  proof
    assume same: "nearest_scan hav cur cs (Suc i) ?b = ?b"
    show ?thesis
    proof (cases "js_lt (calculateDistance hav cur (center c)) sd")
      case True
      with same step have "nearest_scan hav cur (c # cs) i best =
          (Some (i + 0), calculateDistance hav cur (center ((c # cs) ! 0)))"
        by simp
      then show ?thesis by blast
    next
      case False
      with same step best show ?thesis by simp
    qed
  next
    assume "\<exists>j<length cs. nearest_scan hav cur cs (Suc i) ?b =
             (Some (Suc i + j), calculateDistance hav cur (center (cs ! j)))"
    then obtain j where j: "j < length cs"
      "nearest_scan hav cur cs (Suc i) ?b =
         (Some (Suc i + j), calculateDistance hav cur (center (cs ! j)))"
      by blast
    then have "Suc j < length (c # cs)"
      "nearest_scan hav cur (c # cs) i best =
         (Some (i + Suc j), calculateDistance hav cur (center ((c # cs) ! Suc j)))"
      using step by simp_all
    then show ?thesis by blast
  qed
qed

lemma nearest_scan_start:
  "nearest_scan hav cur cs 0 (None, PInf) = (None, PInf) \<or>
   (\<exists>j<length cs. nearest_scan hav cur cs 0 (None, PInf) =
      (Some j, calculateDistance hav cur (center (cs ! j))))"
  using nearest_scan_cases [of hav cur cs 0 "(None, PInf)"] by simp

lemma nearest_scan_selects:
  assumes "cs \<noteq> []" and "js_lt (calculateDistance hav cur (center (hd cs))) PInf"
  shows "\<exists>j<length cs. nearest_scan hav cur cs 0 (None, PInf) =
           (Some j, calculateDistance hav cur (center (cs ! j)))"
proof -
  from assms(1) obtain c cs' where cs: "cs = c # cs'" by (cases cs) auto
  have step: "nearest_scan hav cur cs 0 (None, PInf) =
      nearest_scan hav cur cs' (Suc 0) (Some 0, calculateDistance hav cur (center c))"
    using assms(2) by (simp add: cs Let_def)
  from nearest_scan_cases [of hav cur cs' "Suc 0" "(Some 0, calculateDistance hav cur (center c))"]
  show ?thesis
  proof
    assume "nearest_scan hav cur cs' (Suc 0) (Some 0, calculateDistance hav cur (center c)) =
            (Some 0, calculateDistance hav cur (center c))"
    with step have "nearest_scan hav cur cs 0 (None, PInf) =
        (Some 0, calculateDistance hav cur (center (cs ! 0)))"
      by (simp add: cs)
    moreover have "0 < length cs" by (simp add: cs)
    ultimately show ?thesis by blast
  next
    assume "\<exists>j<length cs'. nearest_scan hav cur cs' (Suc 0) (Some 0, calculateDistance hav cur (center c)) =
             (Some (Suc 0 + j), calculateDistance hav cur (center (cs' ! j)))"
    then obtain j where "j < length cs'"
      "nearest_scan hav cur cs' (Suc 0) (Some 0, calculateDistance hav cur (center c)) =
             (Some (Suc 0 + j), calculateDistance hav cur (center (cs' ! j)))" by blast
    with step have "Suc j < length cs"
      "nearest_scan hav cur cs 0 (None, PInf) =
         (Some (Suc j), calculateDistance hav cur (center (cs ! Suc j)))"
      by (simp_all add: cs)
    then show ?thesis by blast
  qed
qed

lemma mset_delete_at:
  "i < length xs \<Longrightarrow> mset xs = add_mset (xs ! i) (mset (delete_at i xs))"
proof -
  assume "i < length xs"
  then have "xs = take i xs @ xs ! i # drop (Suc i) xs" by (rule id_take_nth_drop)
  then have "mset xs = mset (take i xs @ xs ! i # drop (Suc i) xs)" by simp
  then show ?thesis by (simp add: delete_at_def)
qed

lemma length_delete_at: "i < length xs \<Longrightarrow> length (delete_at i xs) = length xs - 1"
  by (auto simp: delete_at_def)

lemma set_delete_at: "set (delete_at i xs) \<subseteq> set xs"
  using set_take_subset [of i xs] set_drop_subset [of "Suc i" xs]
  by (auto simp: delete_at_def)

lemma nn_loop_Nil: "nn_loop hav [] cur path acc = Some (path, cur, acc)"
  by (subst nn_loop.simps) simp

text \<open>A run of the loop that returns has selected a cell in its first scan.\<close>

lemma nn_loop_selected:
  assumes "nn_loop hav unvisited cur path acc = Some y"
  shows "unvisited = [] \<or> fst (nearest_scan hav cur unvisited 0 (None, PInf)) \<noteq> None"
proof (rule nn_loop.raw_induct
    [where P = "\<lambda>h u c p a y. u = [] \<or> fst (nearest_scan h c u 0 (None, PInf)) \<noteq> None",
      OF _ assms], goal_cases)
  case (1 loop h u c p a y)
  show ?case
  proof (rule ccontr)
    assume "\<not> (u = [] \<or> fst (nearest_scan h c u 0 (None, PInf)) \<noteq> None)"
    then have ne: "u \<noteq> []"
      and none: "fst (nearest_scan h c u 0 (None, PInf)) = None" by auto
    from none obtain sd where "nearest_scan h c u 0 (None, PInf) = (None, sd)"
      by (cases "nearest_scan h c u 0 (None, PInf)") auto
    with ne 1(2) have "loop h u c p a = Some y" by simp
    from 1(1) [OF this] ne none show False by simp
  qed
qed

lemma nn_loop_stuck:
  assumes "unvisited \<noteq> []" and "fst (nearest_scan hav cur unvisited 0 (None, PInf)) = None"
  shows "nn_loop hav unvisited cur path acc = None"
proof (cases "nn_loop hav unvisited cur path acc")
  case None
  then show ?thesis .
next
  case (Some y)
  from nn_loop_selected [OF Some] assms show ?thesis by simp
qed

lemma legs_append:
  "legs hav p (qs @ [q]) acc =
     js_add (legs hav p qs acc) (calculateDistance hav (last (p # qs)) q)"
  by (induction qs arbitrary: p acc) simp_all

text \<open>Whatever the loop returns: the path grown by a permutation of the cells, the last
  position, and the distances added leg by leg.\<close>

lemma nn_loop_result:
  "nn_loop hav unvisited cur path acc = Some res \<Longrightarrow>
     \<exists>wps. res = (path @ wps, last (cur # map position wps),
                   legs hav cur (map position wps) acc) \<and>
           mset wps = mset (map waypoint_of unvisited)"
proof (induction "length unvisited" arbitrary: unvisited cur path acc)
  case 0
  then have "unvisited = []" by simp
  with "0.prems" have "res = (path, cur, acc)" by (simp add: nn_loop_Nil)
  with \<open>unvisited = []\<close> show ?case by simp
next
  case (Suc n)
  then have ne: "unvisited \<noteq> []" by auto
  from nn_loop_selected [OF Suc.prems] ne
  have sel: "fst (nearest_scan hav cur unvisited 0 (None, PInf)) \<noteq> None" by simp
  with nearest_scan_start [of hav cur unvisited] obtain j where j: "j < length unvisited"
    "nearest_scan hav cur unvisited 0 (None, PInf) =
       (Some j, calculateDistance hav cur (center (unvisited ! j)))" by auto
  let ?c = "unvisited ! j"
  let ?d = "calculateDistance hav cur (center ?c)"
  have len: "n = length (delete_at j unvisited)"
    using Suc.hyps(2) j(1) by (simp add: length_delete_at)
  have unfold: "nn_loop hav unvisited cur path acc =
      nn_loop hav (delete_at j unvisited) (center ?c) (path @ [waypoint_of ?c]) (js_add acc ?d)"
    using ne j(2) by (subst nn_loop.simps) simp
  with Suc.prems have
    "nn_loop hav (delete_at j unvisited) (center ?c) (path @ [waypoint_of ?c]) (js_add acc ?d) =
       Some res" by simp
  from Suc.hyps(1) [OF len this] obtain wps where wps:
    "res = ((path @ [waypoint_of ?c]) @ wps, last (center ?c # map position wps),
            legs hav (center ?c) (map position wps) (js_add acc ?d))"
    "mset wps = mset (map waypoint_of (delete_at j unvisited))" by blast
  have pos: "position (waypoint_of ?c) = center ?c" by (simp add: waypoint_of_def)
  have "res = (path @ (waypoint_of ?c # wps), last (cur # map position (waypoint_of ?c # wps)),
            legs hav cur (map position (waypoint_of ?c # wps)) acc)"
    using wps(1) pos by simp
  moreover have "mset (waypoint_of ?c # wps) = mset (map waypoint_of unvisited)"
    using wps(2) mset_delete_at [OF j(1)] by (metis mset.simps(2) mset_map image_mset_add_mset)
  ultimately show ?case by blast
qed

text \<open>The loop returns when every distance it can compare is below \<open>Infinity\<close>.\<close>

lemma nn_loop_returns:
  assumes "\<forall>p \<in> insert cur (center ` set unvisited). \<forall>c \<in> set unvisited.
             js_lt (calculateDistance hav p (center c)) PInf"
  shows "\<exists>res. nn_loop hav unvisited cur path acc = Some res"
  using assms
proof (induction "length unvisited" arbitrary: unvisited cur path acc)
  case 0
  then show ?case by (simp add: nn_loop_Nil)
next
  case (Suc n)
  then have ne: "unvisited \<noteq> []" by auto
  then have "hd unvisited \<in> set unvisited" by simp
  with Suc.prems have "js_lt (calculateDistance hav cur (center (hd unvisited))) PInf" by simp
  from nearest_scan_selects [OF ne this] obtain j where j: "j < length unvisited"
    "nearest_scan hav cur unvisited 0 (None, PInf) =
       (Some j, calculateDistance hav cur (center (unvisited ! j)))" by blast
  let ?c = "unvisited ! j"
  let ?d = "calculateDistance hav cur (center ?c)"
  have len: "n = length (delete_at j unvisited)"
    using Suc.hyps(2) j(1) by (simp add: length_delete_at)
  have unfold: "nn_loop hav unvisited cur path acc =
      nn_loop hav (delete_at j unvisited) (center ?c) (path @ [waypoint_of ?c]) (js_add acc ?d)"
    using ne j(2) by (subst nn_loop.simps) simp
  have mem: "?c \<in> set unvisited" using j(1) by simp
  have "\<forall>p \<in> insert (center ?c) (center ` set (delete_at j unvisited)).
          \<forall>c \<in> set (delete_at j unvisited). js_lt (calculateDistance hav p (center c)) PInf"
    using Suc.prems mem set_delete_at [of j unvisited] by blast
  from Suc.hyps(1) [OF len this] unfold show ?case by simp
qed

lemma generateSprayPath_shape:
  assumes "getInfectedCells g \<noteq> []" and "generateSprayPath hav g = Some r"
  shows "r = \<lparr>waypoints = waypoints r,
              totalDistance =
                parseFloat_toFixed 1 (tour_length hav getFieldCenter (map position (waypoints r))),
              estimatedTime =
                math_ceil (js_add
                  (js_div (tour_length hav getFieldCenter (map position (waypoints r))) (Fin 5))
                  (Fin (real (length (waypoints r) * 3)))),
              pathExists = True,
              startPoint = Some getFieldCenter,
              endPoint = Some getFieldCenter\<rparr> \<and>
         mset (waypoints r) = mset (map waypoint_of (getInfectedCells g))"
proof -
  from assms obtain res where res:
    "nn_loop hav (getInfectedCells g) getFieldCenter [] (Fin 0) = Some res"
    by (auto simp: generateSprayPath_def Let_def split: option.splits)
  from nn_loop_result [OF res] obtain wps where wps:
    "res = (wps, last (getFieldCenter # map position wps),
            legs hav getFieldCenter (map position wps) (Fin 0))"
    "mset wps = mset (map waypoint_of (getInfectedCells g))" by auto
  from assms res wps(1) have "r = \<lparr>waypoints = wps,
              totalDistance =
                parseFloat_toFixed 1 (tour_length hav getFieldCenter (map position wps)),
              estimatedTime =
                math_ceil (js_add
                  (js_div (tour_length hav getFieldCenter (map position wps)) (Fin 5))
                  (Fin (real (length wps * 3)))),
              pathExists = True,
              startPoint = Some getFieldCenter,
              endPoint = Some getFieldCenter\<rparr>"
    by (simp add: generateSprayPath_def Let_def tour_length_def)
  moreover from this have "waypoints r = wps" by simp
  ultimately show ?thesis using wps(2) by simp
qed

lemma generateSprayPath_returns:
  assumes "getInfectedCells g \<noteq> []"
    and "comparable hav getFieldCenter (getInfectedCells g)"
  shows "\<exists>r. generateSprayPath hav g = Some r"
proof -
  have "\<forall>p \<in> insert getFieldCenter (center ` set (getInfectedCells g)).
          \<forall>c \<in> set (getInfectedCells g). js_lt (calculateDistance hav p (center c)) PInf"
    using assms(2) by (simp add: comparable_def)
  from nn_loop_returns [OF this, of "[]" "Fin 0"] obtain res where
    "nn_loop hav (getInfectedCells g) getFieldCenter [] (Fin 0) = Some res" by blast
  with assms(1) show ?thesis
    by (cases res) (simp add: generateSprayPath_def Let_def)
qed

lemma round_fixed_1_close: "\<bar>round_fixed 1 a - a\<bar> \<le> 1 / 20"
proof -
  have close: "\<bar>of_int \<lfloor>b * 10 + 1 / 2\<rfloor> / 10 - b\<bar> \<le> 1 / 20" for b :: real
  proof -
    have "of_int \<lfloor>b * 10 + 1 / 2\<rfloor> \<le> b * 10 + 1 / 2" by (rule of_int_floor_le)
    moreover have "b * 10 + 1 / 2 < of_int \<lfloor>b * 10 + 1 / 2\<rfloor> + 1" by linarith
    ultimately show ?thesis by (simp only: abs_le_iff) linarith
  qed
  show ?thesis
  proof (cases "a < 0")
    case True
    have "\<bar>- (of_int \<lfloor>(- a) * 10 + 1 / 2\<rfloor> / 10) - a\<bar> = \<bar>of_int \<lfloor>(- a) * 10 + 1 / 2\<rfloor> / 10 - (- a)\<bar>"
      by (simp add: abs_minus_commute)
    also have "\<dots> \<le> 1 / 20" by (rule close)
    finally show ?thesis using True by (simp add: round_fixed_def toFixed_scaled_def)
  next
    case False
    then show ?thesis using close [of a] by (simp add: round_fixed_def toFixed_scaled_def)
  qed
qed

text \<open>
  Claim C6. \<open>generateSprayPath\<close> returns a result with \<open>pathExists = false\<close>, no waypoint,
  distance 0 and time 0 exactly when the grid has no infected cell, and on such a grid it
  returns that result.
\<close>

theorem generateSprayPath_no_path_iff:
  "((\<exists>r. generateSprayPath hav g = Some r \<and> \<not> pathExists r \<and> waypoints r = [] \<and>
          totalDistance r = Fin 0 \<and> estimatedTime r = Fin 0)
      \<longleftrightarrow> getInfectedCells g = []) \<and>
   (getInfectedCells g = [] \<longrightarrow> generateSprayPath hav g = Some no_path)"
proof (cases "getInfectedCells g = []")
  case True
  then have "generateSprayPath hav g = Some no_path"
    by (simp add: generateSprayPath_def)
  with True show ?thesis by (simp add: no_path_def)
next
  case False
  have "pathExists r" if "generateSprayPath hav g = Some r" for r
    using generateSprayPath_shape [OF False that] by (metis spray_path.select_convs(4))
  with False show ?thesis by auto
qed

text \<open>
  Claim C7, as the code has it. On a grid with at least one infected cell, whatever
  \<open>generateSprayPath\<close> returns has as \<open>totalDistance\<close> the length of the tour through the
  returned waypoints, closing leg included, rounded to one decimal by \<open>toFixed(1)\<close>: when
  that length is finite the two differ by at most 0.05 m. The planner returns whenever
  the distances it compares are below \<open>Infinity\<close>.
\<close>

theorem generateSprayPath_totalDistance_rounded:
  assumes "getInfectedCells g \<noteq> []"
  shows "(\<forall>r. generateSprayPath hav g = Some r \<longrightarrow>
            totalDistance r =
              parseFloat_toFixed 1 (tour_length hav getFieldCenter (map position (waypoints r))) \<and>
            (\<forall>len. tour_length hav getFieldCenter (map position (waypoints r)) = Fin len \<longrightarrow>
               totalDistance r = Fin (round_fixed 1 len) \<and>
               \<bar>round_fixed 1 len - len\<bar> \<le> 1 / 20)) \<and>
         (comparable hav getFieldCenter (getInfectedCells g) \<longrightarrow>
            (\<exists>r. generateSprayPath hav g = Some r))"
proof (intro conjI allI impI)
  fix r assume r: "generateSprayPath hav g = Some r"
  from generateSprayPath_shape [OF assms r]
  show td: "totalDistance r =
      parseFloat_toFixed 1 (tour_length hav getFieldCenter (map position (waypoints r)))"
    by (metis spray_path.select_convs(2))
  fix len assume "tour_length hav getFieldCenter (map position (waypoints r)) = Fin len"
  with td show "totalDistance r = Fin (round_fixed 1 len)" by simp
  show "\<bar>round_fixed 1 len - len\<bar> \<le> 1 / 20" by (rule round_fixed_1_close)
next
  assume "comparable hav getFieldCenter (getInfectedCells g)"
  with assms show "\<exists>r. generateSprayPath hav g = Some r" by (rule generateSprayPath_returns)
qed

text \<open>
  When the distances are comparable the planner returns; the path starts and ends at the
  launch point, and the ids of its waypoints are the ids of the infected cells, each as
  often as it occurs among them: once, when the cells have distinct ids.
\<close>

lemma generateSprayPath_permutation:
  assumes "getInfectedCells g \<noteq> []"
    and "comparable hav getFieldCenter (getInfectedCells g)"
  shows "\<exists>r. generateSprayPath hav g = Some r \<and>
             startPoint r = Some getFieldCenter \<and> endPoint r = startPoint r \<and>
             mset (map cellId (waypoints r)) = mset (map id_cell (getInfectedCells g)) \<and>
             (distinct (map id_cell (getInfectedCells g)) \<longrightarrow> distinct (map cellId (waypoints r)))"
proof -
  from generateSprayPath_returns [OF assms] obtain r where r: "generateSprayPath hav g = Some r" ..
  note shape = generateSprayPath_shape [OF assms(1) r]
  have sp: "startPoint r = Some getFieldCenter" "endPoint r = Some getFieldCenter"
    using shape by (metis spray_path.select_convs(5), metis spray_path.select_convs(6))
  have ms: "mset (waypoints r) = mset (map waypoint_of (getInfectedCells g))" using shape by blast
  have "mset (map cellId (waypoints r)) = image_mset cellId (mset (waypoints r))" by simp
  also have "\<dots> = image_mset cellId (mset (map waypoint_of (getInfectedCells g)))"
    by (simp only: ms)
  also have "\<dots> = mset (map id_cell (getInfectedCells g))"
    by (simp add: waypoint_of_def image_mset.compositionality comp_def)
  finally have ids: "mset (map cellId (waypoints r)) = mset (map id_cell (getInfectedCells g))" .
  then have "distinct (map id_cell (getInfectedCells g)) \<Longrightarrow> distinct (map cellId (waypoints r))"
    by (metis mset_eq_imp_distinct_iff)
  with r sp ids show ?thesis by simp
qed

lemma nearest_scan_none:
  "\<forall>c \<in> set cs. \<not> js_lt (calculateDistance hav cur (center c)) sd \<Longrightarrow>
     nearest_scan hav cur cs i (n, sd) = (n, sd)"
  by (induction cs arbitrary: i) (simp_all add: Let_def)

text \<open>
  When no infected cell is at a distance below \<open>Infinity\<close> from the launch point, for
  instance because the machine's distances are \<open>NaN\<close>, the planner never returns.
\<close>

lemma generateSprayPath_never_returns:
  assumes "getInfectedCells g \<noteq> []"
    and "\<forall>c \<in> set (getInfectedCells g).
           \<not> js_lt (calculateDistance hav getFieldCenter (center c)) PInf"
  shows "generateSprayPath hav g = None"
proof -
  have "fst (nearest_scan hav getFieldCenter (getInfectedCells g) 0 (None, PInf)) = None"
    using assms(2) by (simp add: nearest_scan_none)
  from nn_loop_stuck [OF assms(1) this]
  have "nn_loop hav (getInfectedCells g) getFieldCenter [] (Fin 0) = None" .
  with assms(1) show ?thesis by (simp add: generateSprayPath_def)
qed




lemma haversine_same_lng:
  assumes near: "\<bar>b - a\<bar> < 180"
  shows "haversine a l b l = Fin (6371000 * (\<bar>b - a\<bar> * pi / 180))"
proof -
  define x where "x = (b - a) * pi / 180 / 2"
  define y where "y = \<bar>x\<bar>"
  have y_eq: "y = \<bar>b - a\<bar> * pi / 360"
    by (simp add: y_def x_def abs_mult)
  have y0: "0 \<le> y" by (simp add: y_def)
  have "\<bar>b - a\<bar> * pi < 180 * pi"
    using near by simp
  then have y1: "y < pi / 2" by (simp add: y_eq)
  have sin2: "sin x * sin x = sin y * sin y"
    by (cases "0 \<le> x") (simp_all add: y_def)
  have a: "haversine_a a l b l = sin y * sin y"
    using sin2 by (simp add: haversine_a_def Let_def x_def)
  have siny: "0 \<le> sin y" using y0 y1 by (intro sin_ge_zero) simp_all
  have cosy: "0 < cos y" using y0 y1 by (intro cos_gt_zero_pi) simp_all
  have sq1: "sqrt (sin y * sin y) = sin y" using siny by simp
  have "1 - sin y * sin y = cos y * cos y"
    using sin_cos_squared_add [of y] by (simp add: power2_eq_square)
  then have sq2: "sqrt (1 - sin y * sin y) = cos y" using cosy by simp
  have "atan2 (sin y) (cos y) = arctan (tan y)"
    using cosy by (simp add: atan2_def tan_def)
  also have "\<dots> = y" using y0 y1 by (intro arctan_tan) simp_all
  finally have at: "atan2 (sin y) (cos y) = y" .
  have range: "\<not> (sin y * sin y < 0 \<or> 1 < sin y * sin y)"
    using haversine_a_range [of a l b l] a by simp
  have "haversine a l b l = Fin (6371000 * (2 * y))"
    using range by (simp only: haversine_def Let_def a sq1 sq2 at if_False)
  then show ?thesis by (simp add: y_eq)
qed

lemma launch_to_near:
  "calculateDistance haversine getFieldCenter (center near_cell) = Fin (pi / 200)"
  using haversine_same_lng [of "286139 / 10000 + 9 / 63710000" "286139 / 10000" "772090 / 10000"]
  by (simp add: calculateDistance_def getFieldCenter_def near_cell_def
      FIELD_CONFIG_center_lat_def FIELD_CONFIG_center_lng_def)

lemma near_to_launch:
  "calculateDistance haversine (center near_cell) getFieldCenter = Fin (pi / 200)"
  using haversine_same_lng [of "286139 / 10000" "286139 / 10000 + 9 / 63710000" "772090 / 10000"]
  by (simp add: calculateDistance_def getFieldCenter_def near_cell_def
      FIELD_CONFIG_center_lat_def FIELD_CONFIG_center_lng_def)

lemma launch_to_far:
  "calculateDistance haversine getFieldCenter (center far_cell) = Fin (pi / 100)"
  using haversine_same_lng [of "286139 / 10000 - 18 / 63710000" "286139 / 10000" "772090 / 10000"]
  by (simp add: calculateDistance_def getFieldCenter_def far_cell_def
      FIELD_CONFIG_center_lat_def FIELD_CONFIG_center_lng_def)

lemma far_to_launch:
  "calculateDistance haversine (center far_cell) getFieldCenter = Fin (pi / 100)"
  using haversine_same_lng [of "286139 / 10000" "286139 / 10000 - 18 / 63710000" "772090 / 10000"]
  by (simp add: calculateDistance_def getFieldCenter_def far_cell_def
      FIELD_CONFIG_center_lat_def FIELD_CONFIG_center_lng_def)

lemma near_to_far:
  "calculateDistance haversine (center near_cell) (center far_cell) = Fin (3 * pi / 200)"
  using haversine_same_lng [of "286139 / 10000 - 18 / 63710000" "286139 / 10000 + 9 / 63710000"
      "772090 / 10000"]
  by (simp add: calculateDistance_def near_cell_def far_cell_def)

lemma infected_near: "getInfectedCells [[near_cell]] = [near_cell]"
  by (simp add: getInfectedCells_def flattenGrid_def near_cell_def)

lemma scan_near:
  "nearest_scan haversine getFieldCenter [near_cell] 0 (None, PInf) = (Some 0, Fin (pi / 200))"
  by (simp add: launch_to_near)

lemma nn_loop_near:
  "nn_loop haversine [near_cell] getFieldCenter [] (Fin 0) =
     Some ([waypoint_of near_cell], center near_cell, Fin (pi / 200))"
  by (subst nn_loop.simps)
     (simp add: scan_near nn_loop_Nil delete_at_def del: nearest_scan.simps)

lemma tour_near: "tour_length haversine getFieldCenter [center near_cell] = Fin (pi / 100)"
  by (simp add: tour_length_def launch_to_near near_to_launch)

lemma round_small: "round_fixed 1 (pi / 100) = 0"
proof -
  have "0 \<le> pi / 100 * 10 + 1 / 2" using pi_ge_zero by simp
  moreover have "pi / 100 * 10 + 1 / 2 < 1" using pi_less_4 by simp
  ultimately have "\<lfloor>pi / 100 * 10 + 1 / 2\<rfloor> = 0" by (simp add: floor_eq_iff)
  then show ?thesis by (simp add: round_fixed_def toFixed_scaled_def)
qed

lemma ceil_small: "\<lceil>pi / 500\<rceil> = 1"
  using pi_gt_zero pi_less_4 by (simp add: ceiling_eq_iff)

text \<open>
  One infected cell 1.6 cm north of the launch point: the tour is \<open>pi / 100\<close> metres
  long, more than 2 cm, and the returned \<open>totalDistance\<close> is 0.
\<close>

theorem generateSprayPath_rounds_counterexample:
  "generateSprayPath haversine [[near_cell]] =
     Some \<lparr>waypoints = [waypoint_of near_cell], totalDistance = Fin 0, estimatedTime = Fin 4,
           pathExists = True, startPoint = Some getFieldCenter, endPoint = Some getFieldCenter\<rparr> \<and>
   tour_length haversine getFieldCenter [position (waypoint_of near_cell)] = Fin (pi / 100) \<and>
   2 / 100 \<le> pi / 100"
proof -
  have "generateSprayPath haversine [[near_cell]] =
     Some \<lparr>waypoints = [waypoint_of near_cell], totalDistance = Fin 0, estimatedTime = Fin 4,
           pathExists = True, startPoint = Some getFieldCenter, endPoint = Some getFieldCenter\<rparr>"
    by (simp add: generateSprayPath_def infected_near nn_loop_near near_to_launch Let_def
        round_small [unfolded One_nat_def] ceil_small)
  moreover have "tour_length haversine getFieldCenter [position (waypoint_of near_cell)] =
      Fin (pi / 100)"
    using tour_near by (simp add: waypoint_of_def)
  moreover have "2 / 100 \<le> pi / 100" using pi_ge_two by simp
  ultimately show ?thesis by simp
qed

text \<open>
  Two infected cells, the farther one first in the grid: the planner visits the nearer
  one first, and the three legs add up to \<open>3 * pi / 100\<close> metres, returned as 0.1.
\<close>

lemma infected_small: "getInfectedCells small_grid = [far_cell, near_cell]"
  by (simp add: getInfectedCells_def flattenGrid_def small_grid_def near_cell_def far_cell_def
      healthy_cell_def)

lemma scan_small:
  "nearest_scan haversine getFieldCenter [far_cell, near_cell] 0 (None, PInf) =
     (Some 1, Fin (pi / 200))"
  by (simp add: launch_to_near launch_to_far)

lemma scan_far:
  "nearest_scan haversine (center near_cell) [far_cell] 0 (None, PInf) =
     (Some 0, Fin (3 * pi / 200))"
  by (simp add: near_to_far)

lemma nn_loop_small:
  "nn_loop haversine [far_cell, near_cell] getFieldCenter [] (Fin 0) =
     Some ([waypoint_of near_cell, waypoint_of far_cell], center far_cell, Fin (pi / 50))"
  by (subst nn_loop.simps, simp add: scan_small delete_at_def del: nearest_scan.simps,
      subst nn_loop.simps, simp add: scan_far nn_loop_Nil delete_at_def del: nearest_scan.simps)

lemma tour_small:
  "tour_length haversine getFieldCenter [center near_cell, center far_cell] = Fin (3 * pi / 100)"
  by (simp add: tour_length_def launch_to_near near_to_far far_to_launch)

lemma round_tenth: "round_fixed 1 (3 * pi / 100) = 1 / 10"
proof -
  have "1 \<le> 3 * pi / 100 * 10 + 1 / 2" using pi_ge_two by simp
  moreover have "3 * pi / 100 * 10 + 1 / 2 < 2" using pi_less_4 by simp
  ultimately have "\<lfloor>3 * pi / 100 * 10 + 1 / 2\<rfloor> = 1" by (simp add: floor_eq_iff)
  moreover have "\<not> 3 * pi / 100 < 0" using pi_ge_zero by simp
  ultimately show ?thesis by (simp add: round_fixed_def toFixed_scaled_def)
qed

lemma ceil_seven: "\<lceil>3 * pi / 500\<rceil> = 1"
  using pi_gt_zero pi_less_4 by (simp add: ceiling_eq_iff)

lemma generateSprayPath_small:
  "generateSprayPath haversine small_grid =
     Some \<lparr>waypoints = [waypoint_of near_cell, waypoint_of far_cell],
           totalDistance = Fin (1 / 10), estimatedTime = Fin 7,
           pathExists = True, startPoint = Some getFieldCenter, endPoint = Some getFieldCenter\<rparr>"
  by (simp add: generateSprayPath_def infected_small nn_loop_small far_to_launch Let_def
      round_tenth [unfolded One_nat_def] ceil_seven)

lemma js_lt_haversine: "js_lt (haversine la1 lo1 la2 lo2) PInf"
proof -
  obtain d where "haversine la1 lo1 la2 lo2 = Fin d" using haversine_finite by blast
  then show ?thesis by simp
qed

text \<open>In exact arithmetic, finite coordinates always give comparable distances.\<close>

lemma calculateDistance_exact_finite:
  assumes "finite_point p" and "finite_point q"
  shows "js_lt (calculateDistance haversine p q) PInf"
  using assms
  by (auto simp: finite_point_def calculateDistance_def js_lt_haversine split: jsnum.splits)

lemma comparable_exact:
  assumes "\<forall>p \<in> set (start # map center cells). finite_point p"
  shows "comparable haversine start cells"
  unfolding comparable_def
proof (intro ballI)
  fix p c assume p: "p \<in> set (start # map center cells)" and c: "c \<in> set cells"
  from assms p have "finite_point p" by blast
  moreover from assms c have "finite_point (center c)" by auto
  ultimately show "js_lt (calculateDistance haversine p (center c)) PInf"
    by (rule calculateDistance_exact_finite)
qed

lemma comparable_small: "comparable haversine getFieldCenter (getInfectedCells small_grid)"
  by (rule comparable_exact)
     (simp add: infected_small getFieldCenter_def near_cell_def far_cell_def finite_point_def)

lemma generateSprayPath_permutation_small:
  "\<exists>r. generateSprayPath haversine small_grid = Some r \<and>
       startPoint r = Some getFieldCenter \<and> endPoint r = startPoint r \<and>
       mset (map cellId (waypoints r)) = {#''1_0'', ''0_0''#} \<and>
       distinct (map cellId (waypoints r))"
  using generateSprayPath_permutation [OF _ comparable_small]
  by (simp add: infected_small) (simp add: near_cell_def far_cell_def)

theorem generateSprayPath_totalDistance_rounded_witness:
  "generateSprayPath haversine small_grid =
     Some \<lparr>waypoints = [waypoint_of near_cell, waypoint_of far_cell],
           totalDistance = Fin (1 / 10), estimatedTime = Fin 7,
           pathExists = True, startPoint = Some getFieldCenter, endPoint = Some getFieldCenter\<rparr> \<and>
   tour_length haversine getFieldCenter [center near_cell, center far_cell] = Fin (3 * pi / 100) \<and>
   Fin (1 / 10) = parseFloat_toFixed 1 (Fin (3 * pi / 100)) \<and>
   \<bar>round_fixed 1 (3 * pi / 100) - 3 * pi / 100\<bar> \<le> 1 / 20 \<and>
   comparable haversine getFieldCenter (getInfectedCells small_grid)"
proof -
  have ne: "getInfectedCells small_grid \<noteq> []" by (simp add: infected_small)
  note t = generateSprayPath_totalDistance_rounded [OF ne, of haversine]
  let ?r = "\<lparr>waypoints = [waypoint_of near_cell, waypoint_of far_cell],
           totalDistance = Fin (1 / 10), estimatedTime = Fin 7,
           pathExists = True, startPoint = Some getFieldCenter, endPoint = Some getFieldCenter\<rparr>"
  have pos: "map position (waypoints ?r) = [center near_cell, center far_cell]"
    by (simp add: waypoint_of_def)
  from t generateSprayPath_small have
    "totalDistance ?r = parseFloat_toFixed 1
        (tour_length haversine getFieldCenter (map position (waypoints ?r)))"
    and "\<forall>len. tour_length haversine getFieldCenter (map position (waypoints ?r)) = Fin len \<longrightarrow>
           totalDistance ?r = Fin (round_fixed 1 len) \<and> \<bar>round_fixed 1 len - len\<bar> \<le> 1 / 20"
    by blast+
  then have "Fin (1 / 10) = parseFloat_toFixed 1 (Fin (3 * pi / 100))"
    and "\<bar>round_fixed 1 (3 * pi / 100) - 3 * pi / 100\<bar> \<le> 1 / 20"
    unfolding pos tour_small by simp_all
  with generateSprayPath_small tour_small comparable_small show ?thesis by blast
qed

theorem generateSprayPath_no_path_iff_witness:
  "generateSprayPath haversine [] = Some no_path \<and>
   generateSprayPath haversine [[near_cell]] \<noteq> Some no_path"
proof -
  have "getInfectedCells [] = []" by (simp add: getInfectedCells_def flattenGrid_def)
  then have "generateSprayPath haversine [] = Some no_path"
    using generateSprayPath_no_path_iff [of haversine "[]"] by simp
  moreover have "generateSprayPath haversine [[near_cell]] \<noteq> Some no_path"
    using generateSprayPath_no_path_iff [of haversine "[[near_cell]]"]
    by (auto simp: infected_near no_path_def)
  ultimately show ?thesis by simp
qed

end
